theory Spec2Isabelle
  imports Main "HOL-Library.Word"
begin

section \<open>sfmatch: matching text into struct fields through one regular expression\<close>

text \<open>
  A shallow embedding of \<^verbatim>\<open>sfmatch.go\<close>.  The package is written against four
  parts of the Go standard library: \<^verbatim>\<open>reflect\<close>, \<^verbatim>\<open>regexp\<close>, \<^verbatim>\<open>strconv\<close>
  and \<^verbatim>\<open>strings\<close>.  The functions of the package (\<^verbatim>\<open>typeParser\<close>,
  \<^verbatim>\<open>Compile\<close>, \<^verbatim>\<open>MustCompile\<close>, \<^verbatim>\<open>CompileWithDelimiter\<close>,
  \<^verbatim>\<open>Unmarshal\<close>) are translated statement by statement.  Of the library,
  \<^item> the regular expression engine, the struct tag lookup and the floating point
    parser are parameters (the record \<open>lib\<close>): every general theorem holds for any
    engine;
  \<^item> \<^verbatim>\<open>strconv.ParseBool\<close>, \<^verbatim>\<open>strconv.ParseUint\<close> and \<^verbatim>\<open>strconv.ParseInt\<close>
    (base 10, 64 bits, as the package calls them) and the setters of
    \<^verbatim>\<open>reflect.Value\<close> are written out;
  \<^item> a run time panic of Go is the outcome \<open>Panics\<close>.
\<close>

subsection \<open>Outcomes and errors\<close>

datatype 'a go = Panics | Returns 'a

text \<open>\<^verbatim>\<open>strconv.ErrSyntax\<close>, \<^verbatim>\<open>strconv.ErrRange\<close> and \<^verbatim>\<open>*strconv.NumError\<close>.\<close>

datatype strconv_err = ErrSyntax | ErrRange

datatype NumError = NumError (Func: string) (Num: string) (Err: strconv_err)

text \<open>
  The errors of the package: the sentinel \<^verbatim>\<open>ErrUnsupportedKind\<close>, a conversion error
  of \<^verbatim>\<open>strconv\<close>, and the four wrapped or fresh errors that
  \<^verbatim>\<open>CompileWithDelimiter\<close> and \<^verbatim>\<open>Unmarshal\<close> build
  (\<^verbatim>\<open>"Failed to use field %s: %w"\<close>, \<^verbatim>\<open>"Failed to compile the regex"\<close>,
  \<^verbatim>\<open>"Mismatch field count and submatch count"\<close>, \<^verbatim>\<open>"No matches found"\<close>,
  \<^verbatim>\<open>"Failed to parse field %d"\<close>).
\<close>

datatype error =
    ErrUnsupportedKind
  | StrconvError NumError
  | FailedToUseField string error
  | FailedToCompileRegex string
  | MismatchFieldCount
  | NoMatchesFound
  | FailedToParseField nat error

subsection \<open>reflect: kinds, types, values\<close>

text \<open>
  \<^verbatim>\<open>reflect.Kind\<close>, in the order of its declaration: \<open>KBool\<close> is
  \<^verbatim>\<open>reflect.Bool\<close> and so on (\<open>Int\<close> is HOL's intersection).
\<close>

datatype Kind =
    KInvalid | KBool
  | KInt | KInt8 | KInt16 | KInt32 | KInt64
  | KUint | KUint8 | KUint16 | KUint32 | KUint64 | KUintptr
  | KFloat32 | KFloat64 | KComplex64 | KComplex128
  | KArray | KChan | KFunc | KInterface | KMap | KPointer | KSlice | KString | KStruct
  | KUnsafePointer

text \<open>
  \<^verbatim>\<open>reflect.StructField\<close>, with the four attributes the package reads: \<^verbatim>\<open>Name\<close>,
  \<^verbatim>\<open>PkgPath\<close> (empty for an exported field), \<^verbatim>\<open>Tag\<close> and the kind of
  \<^verbatim>\<open>Type\<close>.
\<close>

record StructField =
  Name :: string
  PkgPath :: string
  Tag :: string
  TypeKind :: Kind

text \<open>
  \<^verbatim>\<open>reflect.Type\<close>: a struct type with its fields in declaration order, a pointer
  type, or a type of any other kind.
\<close>

datatype Type = StructType "StructField list" | PtrType Type | OtherType Kind

text \<open>
  The contents of a variable of a primitive kind.  Integers are kept as the
  mathematical value of the stored machine integer; \<open>'f\<close> is the type of float64
  values.
\<close>

datatype 'f contents =
    NoContents
  | BoolOf bool
  | IntOf int
  | UintOf nat
  | FloatOf 'f
  | StringOf string

text \<open>
  \<^verbatim>\<open>reflect.Value\<close>: whether it can be set (addressable and not obtained through an
  unexported field), its kind, and what it holds.
\<close>

record 'f Value =
  CanSet :: bool
  kind :: Kind
  holds :: "'f contents"

text \<open>The zero \<^verbatim>\<open>reflect.Value{}\<close>: its flag word is 0, so \<^verbatim>\<open>CanSet\<close> is false.\<close>

definition zero_Value :: "'f Value" where
  "zero_Value = \<lparr>CanSet = False, kind = KInvalid, holds = NoContents\<rparr>"

text \<open>
  An \<^verbatim>\<open>interface{}\<close> argument: its dynamic type (\<open>None\<close> for the nil interface)
  and its value.  \<^verbatim>\<open>reflect.TypeOf\<close> reads the first component only.
\<close>

type_synonym 'v iface = "Type option \<times> 'v"

definition TypeOf :: "'v iface \<Rightarrow> Type option" where
  "TypeOf structure = fst structure"

subsection \<open>The library as a parameter\<close>

text \<open>
  \<^item> \<open>regexp_Compile\<close>: \<^verbatim>\<open>regexp.Compile\<close>, an error message or a compiled
    expression of type \<open>'r\<close>;
  \<^item> \<open>NumSubexp\<close>: \<^verbatim>\<open>(*Regexp).NumSubexp\<close>;
  \<^item> \<open>FindStringSubmatch\<close>: \<^verbatim>\<open>(*Regexp).FindStringSubmatch\<close>, \<open>None\<close> for the
    nil slice;
  \<^item> \<open>Tag_Lookup\<close>: \<^verbatim>\<open>StructTag.Lookup\<close>, tag first, key second;
  \<^item> \<open>ParseFloat\<close>: \<^verbatim>\<open>strconv.ParseFloat(s, 64)\<close>;
  \<^item> \<open>to_float32\<close>: the conversion \<^verbatim>\<open>float32(x)\<close> that \<^verbatim>\<open>SetFloat\<close> makes for
    a \<^verbatim>\<open>float32\<close> variable, read back as a float64.
\<close>

record ('r, 'f) lib =
  regexp_Compile :: "string \<Rightarrow> string + 'r"
  NumSubexp :: "'r \<Rightarrow> nat"
  FindStringSubmatch :: "'r \<Rightarrow> string \<Rightarrow> string list option"
  Tag_Lookup :: "string \<Rightarrow> string \<Rightarrow> string option"
  ParseFloat :: "string \<Rightarrow> NumError + 'f"
  to_float32 :: "'f \<Rightarrow> 'f"

subsection \<open>strconv: booleans and integers\<close>

text \<open>
  \<^verbatim>\<open>strconv.ParseBool\<close>: the twelve accepted literals; anything else is a syntax
  error that carries the function name and the input.
\<close>

definition ParseBool :: "string \<Rightarrow> bool \<times> NumError option" where
  "ParseBool str =
     (if str \<in> set [''1'', ''t'', ''T'', ''true'', ''TRUE'', ''True''] then (True, None)
      else if str \<in> set [''0'', ''f'', ''F'', ''false'', ''FALSE'', ''False''] then (False, None)
      else (False, Some (NumError ''ParseBool'' str ErrSyntax)))"

text \<open>
  \<^verbatim>\<open>strconv.ParseUint(s, 10, 64)\<close>.  With base 10 the underscore is not a digit
  separator; a letter is a digit of value 10 or more, which the base refuses.  The
  accumulator is a \<^verbatim>\<open>uint64\<close>; \<open>cutoff10\<close> is \<^verbatim>\<open>maxUint64/10 + 1\<close> and
  \<open>maxVal64\<close> is \<^verbatim>\<open>1<<64 - 1\<close>.  As in Go, the value returned beside an error is
  0 for a syntax error and \<open>maxVal64\<close> for a range error.
\<close>

definition cutoff10 :: "64 word" where
  "cutoff10 = 1844674407370955162"

definition maxVal64 :: "64 word" where
  "maxVal64 = 18446744073709551615"

definition digit_of :: "char \<Rightarrow> nat option" where
  "digit_of c =
     (let b = (of_char c :: nat) in
      if 48 \<le> b \<and> b \<le> 57 then Some (b - 48)
      else if 97 \<le> b \<and> b \<le> 122 then Some (b - 97 + 10)
      else if 65 \<le> b \<and> b \<le> 90 then Some (b - 65 + 10)
      else None)"

fun ParseUint_loop :: "string \<Rightarrow> string \<Rightarrow> 64 word \<Rightarrow> 64 word \<times> NumError option" where
  "ParseUint_loop s0 [] n = (n, None)"
| "ParseUint_loop s0 (c # cs) n =
     (case digit_of c of
        None \<Rightarrow> (0, Some (NumError ''ParseUint'' s0 ErrSyntax))
      | Some d \<Rightarrow>
          if d \<ge> 10 then (0, Some (NumError ''ParseUint'' s0 ErrSyntax))
          else if n \<ge> cutoff10 then (maxVal64, Some (NumError ''ParseUint'' s0 ErrRange))
          else
            (let n10 = n * 10; n1 = n10 + of_nat d in
             if n1 < n10 \<or> n1 > maxVal64
             then (maxVal64, Some (NumError ''ParseUint'' s0 ErrRange))
             else ParseUint_loop s0 cs n1))"

definition ParseUint :: "string \<Rightarrow> 64 word \<times> NumError option" where
  "ParseUint s =
     (if s = [] then (0, Some (NumError ''ParseUint'' s ErrSyntax))
      else ParseUint_loop s s 0)"

text \<open>
  \<^verbatim>\<open>strconv.ParseInt(s, 10, 64)\<close>: an optional sign, the digits through
  \<^verbatim>\<open>ParseUint\<close>, then the range check against \<^verbatim>\<open>1 << 63\<close>.  The result is the
  \<^verbatim>\<open>int64\<close> as a 64-bit word, read with \<open>sint\<close>.
\<close>

definition cutoff63 :: "64 word" where
  "cutoff63 = 9223372036854775808"

definition ParseInt :: "string \<Rightarrow> 64 word \<times> NumError option" where
  "ParseInt s0 =
     (if s0 = [] then (0, Some (NumError ''ParseInt'' s0 ErrSyntax))
      else
        (let neg = (hd s0 = CHR ''-'');
             s = (if hd s0 = CHR ''+'' \<or> hd s0 = CHR ''-'' then tl s0 else s0)
         in case ParseUint s of
              (un, Some (NumError f n ErrSyntax)) \<Rightarrow> (0, Some (NumError ''ParseInt'' s0 ErrSyntax))
            | (un, _) \<Rightarrow>
                if \<not> neg \<and> un \<ge> cutoff63
                then (cutoff63 - 1, Some (NumError ''ParseInt'' s0 ErrRange))
                else if neg \<and> un > cutoff63
                then (- cutoff63, Some (NumError ''ParseInt'' s0 ErrRange))
                else (if neg then - un else un, None)))"

subsection \<open>reflect: the setters\<close>

text \<open>
  Each setter panics on a value that cannot be set (\<^verbatim>\<open>mustBeAssignable\<close>) and on a
  value of the wrong kind.  \<^verbatim>\<open>SetInt\<close> and \<^verbatim>\<open>SetUint\<close> convert the 64-bit
  argument to the type of the variable, which drops the high bits; \<^verbatim>\<open>int\<close> and
  \<^verbatim>\<open>uint\<close> are 64 bits wide, as on every 64-bit target, and so is
  \<^verbatim>\<open>uintptr\<close>.  \<open>store\<close> is the assignment through the pointer of the value.
\<close>

definition store :: "'f Value \<Rightarrow> 'f contents \<Rightarrow> 'f Value go" where
  "store v c = Returns (v\<lparr>holds := c\<rparr>)"

definition SetBool :: "'f Value \<Rightarrow> bool \<Rightarrow> 'f Value go" where
  "SetBool v x =
     (if \<not> CanSet v then Panics
      else if kind v = KBool then store v (BoolOf x)
      else Panics)"

definition SetInt :: "'f Value \<Rightarrow> 64 word \<Rightarrow> 'f Value go" where
  "SetInt v x =
     (if \<not> CanSet v then Panics
      else if kind v = KInt then store v (IntOf (sint x))
      else if kind v = KInt8 then store v (IntOf (sint (ucast x :: 8 word)))
      else if kind v = KInt16 then store v (IntOf (sint (ucast x :: 16 word)))
      else if kind v = KInt32 then store v (IntOf (sint (ucast x :: 32 word)))
      else if kind v = KInt64 then store v (IntOf (sint x))
      else Panics)"

definition SetUint :: "'f Value \<Rightarrow> 64 word \<Rightarrow> 'f Value go" where
  "SetUint v x =
     (if \<not> CanSet v then Panics
      else if kind v = KUint then store v (UintOf (unat x))
      else if kind v = KUint8 then store v (UintOf (unat (ucast x :: 8 word)))
      else if kind v = KUint16 then store v (UintOf (unat (ucast x :: 16 word)))
      else if kind v = KUint32 then store v (UintOf (unat (ucast x :: 32 word)))
      else if kind v = KUint64 then store v (UintOf (unat x))
      else if kind v = KUintptr then store v (UintOf (unat x))
      else Panics)"

definition SetFloat :: "('r, 'f) lib \<Rightarrow> 'f Value \<Rightarrow> 'f \<Rightarrow> 'f Value go" where
  "SetFloat lib v x =
     (if \<not> CanSet v then Panics
      else if kind v = KFloat32 then store v (FloatOf (to_float32 lib x))
      else if kind v = KFloat64 then store v (FloatOf x)
      else Panics)"

definition SetString :: "'f Value \<Rightarrow> string \<Rightarrow> 'f Value go" where
  "SetString v x =
     (if \<not> CanSet v then Panics
      else if kind v = KString then store v (StringOf x)
      else Panics)"

subsection \<open>typeParser\<close>

text \<open>
  \<^verbatim>\<open>typeParser(kind, input, v)\<close> returns the error (or nil) and leaves \<open>v\<close> set or
  untouched; the model returns the error and the value of \<open>v\<close> afterwards.  The
  \<^verbatim>\<open>switch\<close> has five cases and a default; every case returns nil at once when
  \<open>v\<close> cannot be set.  \<open>after_set\<close> is the \<^verbatim>\<open>return nil\<close> that follows a
  setter, unless the setter panicked.
\<close>

definition after_set :: "'f Value go \<Rightarrow> (error option \<times> 'f Value) go" where
  "after_set r = (case r of Panics \<Rightarrow> Panics | Returns v' \<Rightarrow> Returns (None, v'))"

definition typeParser ::
  "('r, 'f) lib \<Rightarrow> Kind \<Rightarrow> string \<Rightarrow> 'f Value \<Rightarrow> (error option \<times> 'f Value) go" where
  "typeParser lib knd input v =
     (let canSet = CanSet v in
      if knd = KBool then
        (if \<not> canSet then Returns (None, v)
         else case ParseBool input of
                (b, Some err) \<Rightarrow> Returns (Some (StrconvError err), v)
              | (b, None) \<Rightarrow> after_set (SetBool v b))
      else if knd \<in> {KInt, KInt8, KInt16, KInt32, KInt64} then
        (if \<not> canSet then Returns (None, v)
         else case ParseInt input of
                (i, Some err) \<Rightarrow> Returns (Some (StrconvError err), v)
              | (i, None) \<Rightarrow> after_set (SetInt v i))
      else if knd \<in> {KUint, KUint8, KUint16, KUint32, KUint64} then
        (if \<not> canSet then Returns (None, v)
         else case ParseUint input of
                (u, Some err) \<Rightarrow> Returns (Some (StrconvError err), v)
              | (u, None) \<Rightarrow> after_set (SetUint v u))
      else if knd \<in> {KFloat32, KFloat64} then
        (if \<not> canSet then Returns (None, v)
         else case ParseFloat lib input of
                Inl err \<Rightarrow> Returns (Some (StrconvError err), v)
              | Inr f \<Rightarrow> after_set (SetFloat lib v f))
      else if knd = KString then
        (if \<not> canSet then Returns (None, v)
         else after_set (SetString v input))
      else Returns (Some ErrUnsupportedKind, v))"

subsection \<open>Match, Compile, CompileWithDelimiter\<close>

record 'r Match =
  regex :: 'r
  indices :: "nat list"
  kinds :: "Kind list"
  vtype :: Type

text \<open>
  The fragment of a field: the value under the key \<^verbatim>\<open>sfmatch\<close> when the tag has
  one, the whole tag otherwise.
\<close>

definition fragment :: "('r, 'f) lib \<Rightarrow> StructField \<Rightarrow> string" where
  "fragment lib ft =
     (case Tag_Lookup lib (Tag ft) ''sfmatch'' of Some tg \<Rightarrow> tg | None \<Rightarrow> Tag ft)"

text \<open>
  The loop over the fields \<open>i = 0, ..., n - 1\<close>.  Its state is the text written to the
  \<^verbatim>\<open>strings.Builder\<close> and the two slices \<^verbatim>\<open>fields\<close> (here \<open>flds\<close>) and \<^verbatim>\<open>kinds\<close>; the
  first argument of the recursion is the list of the fields from \<open>i\<close> on.
\<close>

type_synonym compile_state = "string \<times> nat list \<times> Kind list"

fun compile_loop ::
  "('r, 'f) lib \<Rightarrow> string \<Rightarrow> StructField list \<Rightarrow> nat \<Rightarrow> compile_state \<Rightarrow>
     (error + compile_state) go" where
  "compile_loop lib delim [] i st = Returns (Inr st)"
| "compile_loop lib delim (ft # rest) i (rx, flds, knds) =
     (if PkgPath ft \<noteq> [] then compile_loop lib delim rest (Suc i) (rx, flds, knds)
      else
        (let tg = fragment lib ft in
         if tg = ''-'' \<or> tg = [] then compile_loop lib delim rest (Suc i) (rx, flds, knds)
         else
           (let fk = TypeKind ft in
            case typeParser lib fk [] zero_Value of
              Panics \<Rightarrow> Panics
            | Returns (err, _) \<Rightarrow>
                if err = Some ErrUnsupportedKind
                then Returns (Inl (FailedToUseField (Name ft) ErrUnsupportedKind))
                else compile_loop lib delim rest (Suc i)
                       (rx @ delim @ tg, flds @ [i], knds @ [fk]))))"

definition CompileWithDelimiter ::
  "('r, 'f) lib \<Rightarrow> 'v iface \<Rightarrow> string \<Rightarrow> (error + 'r Match) go" where
  "CompileWithDelimiter lib structure delim =
     (case TypeOf structure of
        None \<Rightarrow> Panics
      | Some t0 \<Rightarrow>
          (let t = (case t0 of PtrType e \<Rightarrow> e | _ \<Rightarrow> t0) in
           case t of
             StructType fs \<Rightarrow>
               (case compile_loop lib delim fs 0 (''(?mU)'', [], []) of
                  Panics \<Rightarrow> Panics
                | Returns (Inl e) \<Rightarrow> Returns (Inl e)
                | Returns (Inr (rx, flds, knds)) \<Rightarrow>
                    (case regexp_Compile lib rx of
                       Inl err \<Rightarrow> Returns (Inl (FailedToCompileRegex err))
                     | Inr r \<Rightarrow>
                         if NumSubexp lib r \<noteq> length flds
                         then Returns (Inl MismatchFieldCount)
                         else Returns (Inr \<lparr>regex = r, indices = flds,
                                             kinds = knds, vtype = t\<rparr>)))
           | _ \<Rightarrow> Panics))"

text \<open>
  \<^verbatim>\<open>Compile\<close> fixes the delimiter \<^verbatim>\<open>[\s\S]*\<close>.  A string literal of HOL
  cannot hold a backslash, which is written \<open>bs\<close> (the character \<open>0x5C\<close>).
\<close>

abbreviation (input) bs :: string where
  "bs \<equiv> [CHR 0x5C]"

definition default_delimiter :: string where
  "default_delimiter = ''['' @ bs @ ''s'' @ bs @ ''S]*''"

definition Compile :: "('r, 'f) lib \<Rightarrow> 'v iface \<Rightarrow> (error + 'r Match) go" where
  "Compile lib structure = CompileWithDelimiter lib structure default_delimiter"

text \<open>\<^verbatim>\<open>MustCompile\<close> panics where \<^verbatim>\<open>Compile\<close> returns an error.\<close>

definition MustCompile :: "('r, 'f) lib \<Rightarrow> 'v iface \<Rightarrow> 'r Match go" where
  "MustCompile lib structure =
     (case Compile lib structure of
        Panics \<Rightarrow> Panics
      | Returns (Inl err) \<Rightarrow> Panics
      | Returns (Inr m) \<Rightarrow> Returns m)"

subsection \<open>Unmarshal\<close>

text \<open>
  The \<^verbatim>\<open>value\<close> argument of \<^verbatim>\<open>Unmarshal\<close>, an \<^verbatim>\<open>interface{}\<close>:
  \<^item> a pointer to a struct variable, with the values of its fields (a field can be set
    unless it is unexported);
  \<^item> a pointer to a variable that is no struct;
  \<^item> a nil pointer;
  \<^item> a struct passed by value, none of whose fields can be set;
  \<^item> any other value, the nil interface included.
  \<^verbatim>\<open>reflect.ValueOf(value).Elem()\<close> panics on what is neither a pointer nor an
  interface, so on the last two, and is the zero Value for the nil pointer.  In the
  first case the model keeps the constructor for the struct variable itself, which is
  what the loop reads and writes.
\<close>

datatype 'f target =
    PtrToStruct "'f Value list"
  | PtrToOther
  | NilPtr
  | StructValue "'f Value list"
  | OtherValue

definition Elem_panics :: "'f target \<Rightarrow> bool" where
  "Elem_panics dest = (case dest of StructValue fs \<Rightarrow> True | OtherValue \<Rightarrow> True | _ \<Rightarrow> False)"

text \<open>
  \<^verbatim>\<open>v.Field(j)\<close> panics unless \<open>v\<close> is a struct with more than \<open>j\<close> fields.
  \<open>put_Field\<close> is the state of the struct variable after \<^verbatim>\<open>typeParser\<close> has
  worked on its field \<open>j\<close>.
\<close>

definition Field :: "'f target \<Rightarrow> nat \<Rightarrow> 'f Value go" where
  "Field v j =
     (case v of
        PtrToStruct fs \<Rightarrow> if j < length fs then Returns (fs ! j) else Panics
      | _ \<Rightarrow> Panics)"

definition put_Field :: "'f target \<Rightarrow> nat \<Rightarrow> 'f Value \<Rightarrow> 'f target" where
  "put_Field v j f = (case v of PtrToStruct fs \<Rightarrow> PtrToStruct (fs[j := f]) | _ \<Rightarrow> v)"

text \<open>
  The loop \<^verbatim>\<open>for i, j := range m.indices\<close>: \<open>i\<close> counts, the list holds the indices
  from position \<open>i\<close> on.  \<^verbatim>\<open>m.kinds[i]\<close> and \<^verbatim>\<open>s[i+1]\<close> panic out of range.
\<close>

fun unmarshal_loop ::
  "('r, 'f) lib \<Rightarrow> Kind list \<Rightarrow> string list \<Rightarrow> nat \<Rightarrow> nat list \<Rightarrow> 'f target \<Rightarrow>
     error option go \<times> 'f target" where
  "unmarshal_loop lib ks s i [] v = (Returns None, v)"
| "unmarshal_loop lib ks s i (j # js) v =
     (if length ks \<le> i \<or> length s \<le> i + 1 then (Panics, v)
      else case Field v j of
             Panics \<Rightarrow> (Panics, v)
           | Returns f \<Rightarrow>
               (case typeParser lib (ks ! i) (s ! (i + 1)) f of
                  Panics \<Rightarrow> (Panics, v)
                | Returns (Some err, f') \<Rightarrow>
                    (Returns (Some (FailedToParseField j err)), put_Field v j f')
                | Returns (None, f') \<Rightarrow>
                    unmarshal_loop lib ks s (Suc i) js (put_Field v j f')))"

definition Unmarshal ::
  "('r, 'f) lib \<Rightarrow> 'r Match \<Rightarrow> string \<Rightarrow> 'f target \<Rightarrow> error option go \<times> 'f target" where
  "Unmarshal lib m data dest =
     (case FindStringSubmatch lib (regex m) data of
        None \<Rightarrow> (Returns (Some NoMatchesFound), dest)
      | Some s \<Rightarrow>
          if Elem_panics dest then (Panics, dest)
          else unmarshal_loop lib (kinds m) s 0 (indices m) dest)"

section \<open>A model of the library\<close>

text \<open>
  The theorems over an arbitrary \<open>lib\<close> need no more than the record.  The concrete
  scenarios need an engine that runs: \<open>golib\<close> below.  It follows the documented
  behaviour of Go on a part of the syntax and refuses the rest with the message
  \<open>unsupported\<close>, which Go does not have: it is used on patterns of the modelled part
  only.

  The modelled part of the regular expressions: literals, the dot, \<^verbatim>\<open>^\<close> and
  \<^verbatim>\<open>$\<close>, \<^verbatim>\<open>\A\<close> and \<^verbatim>\<open>\z\<close>, escaped punctuation and the escapes
  \<^verbatim>\<open>\a \f \n \r \t \v\<close>, the classes \<^verbatim>\<open>\d \D \s \S \w \W\<close>, bracket
  classes of characters, ranges and these classes, capturing groups, the flag groups
  \<^verbatim>\<open>(?flags)\<close> and \<^verbatim>\<open>(?flags:re)\<close> with the flags \<^verbatim>\<open>i m s U\<close>, alternation,
  \<^verbatim>\<open>?\<close> on any item, \<^verbatim>\<open>*\<close> and \<^verbatim>\<open>+\<close> on an item that matches one
  character, and the suffix \<^verbatim>\<open>?\<close> that swaps the preference of a repetition.
  The text is a string of bytes and is matched byte by byte, which is Go's matching
  on ASCII text.  Matching is leftmost, and among the matches at one position the one
  that a backtracking search finds first, as the package \<^verbatim>\<open>regexp\<close> specifies.
\<close>

subsection \<open>regexp: expressions and matching\<close>

text \<open>
  A set of characters, over the codes of the bytes: a literal (with case folding or
  not), the dot (matching the newline or not), or a bracket class (negated or not,
  folding or not) of ranges and of the Perl classes, each negated or not.
\<close>

datatype citem = Range nat nat | Perl bool "(nat \<times> nat) list"

datatype cset = Lit bool char | Dot bool | Class bool bool "citem list"

text \<open>
  An expression.  \<open>Star\<close> and \<open>Plus\<close> repeat one character of a set and carry
  whether they are greedy; \<open>Quest\<close> carries the same; \<open>Cap n\<close> is the capturing
  group that fills the entry \<open>n\<close> of the captures (group \<open>n + 1\<close> of Go).
\<close>

datatype re =
    Empty
  | Chars cset
  | Cat re re
  | Alt re re
  | Star bool cset
  | Plus bool cset
  | Quest bool re
  | Cap nat re
  | BeginLine | EndLine | BeginText | EndText

text \<open>
  Whether a set has a character.  Case folding is the one of the ASCII letters.
\<close>

definition in_ranges :: "(nat \<times> nat) list \<Rightarrow> nat \<Rightarrow> bool" where
  "in_ranges rs b = list_ex (\<lambda>(lo, hi). lo \<le> b \<and> b \<le> hi) rs"

definition other_case :: "nat \<Rightarrow> nat" where
  "other_case b =
     (if 65 \<le> b \<and> b \<le> 90 then b + 32
      else if 97 \<le> b \<and> b \<le> 122 then b - 32
      else b)"

fun item_has :: "citem \<Rightarrow> nat \<Rightarrow> bool" where
  "item_has (Range lo hi) b = (lo \<le> b \<and> b \<le> hi)"
| "item_has (Perl neg rs) b = (in_ranges rs b \<noteq> neg)"

fun cmatch :: "cset \<Rightarrow> char \<Rightarrow> bool" where
  "cmatch (Lit fc c) x =
     (x = c \<or> (fc \<and> (of_char x :: nat) = other_case (of_char c)))"
| "cmatch (Dot nl) x = (nl \<or> x \<noteq> CHR 0x0A)"
| "cmatch (Class neg fc items) x =
     ((list_ex (\<lambda>it. item_has it (of_char x)) items
       \<or> (fc \<and> list_ex (\<lambda>it. item_has it (other_case (of_char x))) items)) \<noteq> neg)"

text \<open>
  The backtracking search.  Its first argument is what is left to match: expressions
  to run, and groups to close with the position where they opened.  It carries the
  character before the position (for \<^verbatim>\<open>^\<close>), the position, the rest of the text and
  the captures, and returns the end of the match and the captures of the first
  alternative that succeeds, in the order of preference: for a greedy repetition one
  more character first, for an ungreedy one the rest of the expression first.
\<close>

datatype insn = Run re | Close nat nat

type_synonym caps = "(nat \<times> nat) option list"

fun rsize :: "re \<Rightarrow> nat" where
  "rsize (Cat a b) = Suc (rsize a + rsize b)"
| "rsize (Alt a b) = Suc (rsize a + rsize b)"
| "rsize (Plus g cs) = 2"
| "rsize (Quest g a) = Suc (rsize a)"
| "rsize (Cap n a) = Suc (Suc (rsize a))"
| "rsize _ = 1"

fun isize :: "insn \<Rightarrow> nat" where
  "isize (Run r) = rsize r"
| "isize (Close n b) = 1"

function bt :: "insn list \<Rightarrow> char option \<Rightarrow> nat \<Rightarrow> string \<Rightarrow> caps \<Rightarrow> (nat \<times> caps) option" where
  "bt [] prev pos s caps = Some (pos, caps)"
| "bt (Close n b # k) prev pos s caps = bt k prev pos s (caps[n := Some (b, pos)])"
| "bt (Run Empty # k) prev pos s caps = bt k prev pos s caps"
| "bt (Run (Chars cs) # k) prev pos s caps =
     (case s of
        [] \<Rightarrow> None
      | c # s' \<Rightarrow> if cmatch cs c then bt k (Some c) (Suc pos) s' caps else None)"
| "bt (Run (Cat a b) # k) prev pos s caps = bt (Run a # Run b # k) prev pos s caps"
| "bt (Run (Alt a b) # k) prev pos s caps =
     (case bt (Run a # k) prev pos s caps of
        Some r \<Rightarrow> Some r
      | None \<Rightarrow> bt (Run b # k) prev pos s caps)"
| "bt (Run (Star g cs) # k) prev pos s caps =
     (if g then
        (case (case s of
                 [] \<Rightarrow> None
               | c # s' \<Rightarrow>
                   if cmatch cs c then bt (Run (Star g cs) # k) (Some c) (Suc pos) s' caps
                   else None) of
           Some r \<Rightarrow> Some r
         | None \<Rightarrow> bt k prev pos s caps)
      else
        (case bt k prev pos s caps of
           Some r \<Rightarrow> Some r
         | None \<Rightarrow>
             (case s of
                [] \<Rightarrow> None
              | c # s' \<Rightarrow>
                  if cmatch cs c then bt (Run (Star g cs) # k) (Some c) (Suc pos) s' caps
                  else None)))"
| "bt (Run (Plus g cs) # k) prev pos s caps =
     (case s of
        [] \<Rightarrow> None
      | c # s' \<Rightarrow>
          if cmatch cs c then bt (Run (Star g cs) # k) (Some c) (Suc pos) s' caps
          else None)"
| "bt (Run (Quest g a) # k) prev pos s caps =
     (if g then
        (case bt (Run a # k) prev pos s caps of
           Some r \<Rightarrow> Some r
         | None \<Rightarrow> bt k prev pos s caps)
      else
        (case bt k prev pos s caps of
           Some r \<Rightarrow> Some r
         | None \<Rightarrow> bt (Run a # k) prev pos s caps))"
| "bt (Run (Cap n a) # k) prev pos s caps = bt (Run a # Close n pos # k) prev pos s caps"
| "bt (Run BeginLine # k) prev pos s caps =
     (if prev = None \<or> prev = Some (CHR 0x0A) then bt k prev pos s caps else None)"
| "bt (Run EndLine # k) prev pos s caps =
     (if s = [] \<or> hd s = CHR 0x0A then bt k prev pos s caps else None)"
| "bt (Run BeginText # k) prev pos s caps =
     (if prev = None then bt k prev pos s caps else None)"
| "bt (Run EndText # k) prev pos s caps =
     (if s = [] then bt k prev pos s caps else None)"
  by pat_completeness auto
termination
  by (relation "measure (\<lambda>(k, prev, pos, s, caps). length s + sum_list (map isize k))") auto

text \<open>
  The leftmost match: the search from the first position where one succeeds.
\<close>

fun find_from :: "re \<Rightarrow> nat \<Rightarrow> char option \<Rightarrow> nat \<Rightarrow> string \<Rightarrow> ((nat \<times> nat) \<times> caps) option" where
  "find_from r n prev pos [] =
     (case bt [Run r] prev pos [] (replicate n None) of
        Some (e, caps) \<Rightarrow> Some ((pos, e), caps)
      | None \<Rightarrow> None)"
| "find_from r n prev pos (c # s) =
     (case bt [Run r] prev pos (c # s) (replicate n None) of
        Some (e, caps) \<Rightarrow> Some ((pos, e), caps)
      | None \<Rightarrow> find_from r n (Some c) (Suc pos) s)"


text \<open>
  The parser reads the pattern once, character by character, as the parser of
  \<^verbatim>\<open>regexp/syntax\<close> does, with a stack of the groups that are open.  The flags
  \<^verbatim>\<open>i\<close>, \<^verbatim>\<open>m\<close>, \<^verbatim>\<open>s\<close> and \<^verbatim>\<open>U\<close> decide how the next items are read:
  a literal with or without case folding, \<^verbatim>\<open>^\<close> and \<^verbatim>\<open>$\<close> for lines or for the
  text, the dot with or without the newline, and which way a repetition prefers.
\<close>

record flags =
  foldCase :: bool
  multiLine :: bool
  dotNL :: bool
  unGreedy :: bool

text \<open>
  A group that is open: the entry of the captures it fills (if it captures), the flags
  to restore when it closes, the alternatives read so far and the items of the current
  one, newest first.
\<close>

record frame =
  capno :: "nat option"
  saved :: flags
  alts :: "re list"
  cur :: "re list"

text \<open>
  Inside a bracket class: a character just read may open a range.  The modes of the
  parser: between items, after a backslash, after an opening parenthesis, inside a
  flag group (negated, a flag seen, the flags so far), after an opening bracket, inside
  a class (negated, nothing read yet, the items, the pending character), after a
  backslash inside a class.
\<close>

datatype pending = PNone | PChar nat | PDash nat

datatype pmode =
    Normal
  | Escape
  | Opened
  | InFlags bool bool flags
  | ClassStart
  | InClass bool bool "citem list" pending
  | ClassEscape bool "citem list" pending

text \<open>
  The state of the parser: mode, flags in force, innermost open group, the groups
  around it, the number of capturing groups opened so far, and whether the last item is
  a repetition (1) or a repetition with its \<^verbatim>\<open>?\<close> suffix (2), which cannot be
  repeated again.
\<close>

record pstate =
  mode :: pmode
  fl :: flags
  top :: frame
  outer :: "frame list"
  ncap :: nat
  rep :: nat

definition unsupported :: string where
  "unsupported = ''outside the modelled syntax''"

fun concat_of :: "re list \<Rightarrow> re" where
  "concat_of [] = Empty"
| "concat_of [r] = r"
| "concat_of (r # rs) = Cat (concat_of rs) r"

definition frame_re :: "frame \<Rightarrow> re" where
  "frame_re fr = foldl (\<lambda>acc a. Alt a acc) (concat_of (cur fr)) (alts fr)"

definition add_item :: "pstate \<Rightarrow> re \<Rightarrow> pstate" where
  "add_item st r = st\<lparr>mode := Normal, top := (top st)\<lparr>cur := r # cur (top st)\<rparr>, rep := 0\<rparr>"

definition digit_ranges :: "(nat \<times> nat) list" where
  "digit_ranges = [(48, 57)]"

definition space_ranges :: "(nat \<times> nat) list" where
  "space_ranges = [(9, 10), (12, 13), (32, 32)]"

definition word_ranges :: "(nat \<times> nat) list" where
  "word_ranges = [(48, 57), (65, 90), (95, 95), (97, 122)]"

definition perl_class :: "char \<Rightarrow> citem option" where
  "perl_class c =
     (if c = CHR ''d'' then Some (Perl False digit_ranges)
      else if c = CHR ''D'' then Some (Perl True digit_ranges)
      else if c = CHR ''s'' then Some (Perl False space_ranges)
      else if c = CHR ''S'' then Some (Perl True space_ranges)
      else if c = CHR ''w'' then Some (Perl False word_ranges)
      else if c = CHR ''W'' then Some (Perl True word_ranges)
      else None)"

definition escape_lit :: "char \<Rightarrow> char option" where
  "escape_lit c =
     (let b = (of_char c :: nat) in
      if b < 128 \<and> \<not> in_ranges [(48, 57), (65, 90), (97, 122)] b then Some c
      else if c = CHR ''a'' then Some (CHR 0x07)
      else if c = CHR ''f'' then Some (CHR 0x0C)
      else if c = CHR ''n'' then Some (CHR 0x0A)
      else if c = CHR ''r'' then Some (CHR 0x0D)
      else if c = CHR ''t'' then Some (CHR 0x09)
      else if c = CHR ''v'' then Some (CHR 0x0B)
      else None)"

text \<open>
  Opening and closing a group.  A closed group becomes one item of the group around it,
  and the flags of the time of the opening parenthesis are restored.
\<close>

definition open_group :: "pstate \<Rightarrow> bool \<Rightarrow> flags \<Rightarrow> pstate" where
  "open_group st capturing f =
     st\<lparr>mode := Normal, fl := f,
        top := \<lparr>capno = (if capturing then Some (ncap st) else None),
                saved = fl st, alts = [], cur = []\<rparr>,
        outer := top st # outer st,
        ncap := (if capturing then Suc (ncap st) else ncap st),
        rep := 0\<rparr>"

definition close_group :: "pstate \<Rightarrow> string + pstate" where
  "close_group st =
     (case outer st of
        [] \<Rightarrow> Inl ''unexpected )''
      | parent # rest \<Rightarrow>
          (let r = frame_re (top st);
               item = (case capno (top st) of None \<Rightarrow> r | Some n \<Rightarrow> Cap n r)
           in Inr (st\<lparr>mode := Normal, fl := saved (top st),
                      top := parent\<lparr>cur := item # cur parent\<rparr>,
                      outer := rest, rep := 0\<rparr>)))"

text \<open>
  \<^verbatim>\<open>*\<close>, \<^verbatim>\<open>+\<close> and \<^verbatim>\<open>?\<close> apply to the last item; a repetition is greedy unless
  the flag \<^verbatim>\<open>U\<close> is on, and the suffix \<^verbatim>\<open>?\<close> swaps that.
\<close>

definition repeat_op :: "pstate \<Rightarrow> char \<Rightarrow> string + pstate" where
  "repeat_op st c =
     (if rep st = 1 \<and> c = CHR ''?'' then
        (case cur (top st) of
           Star g cs # rs \<Rightarrow> Inr (st\<lparr>top := (top st)\<lparr>cur := Star (\<not> g) cs # rs\<rparr>, rep := 2\<rparr>)
         | Plus g cs # rs \<Rightarrow> Inr (st\<lparr>top := (top st)\<lparr>cur := Plus (\<not> g) cs # rs\<rparr>, rep := 2\<rparr>)
         | Quest g r # rs \<Rightarrow> Inr (st\<lparr>top := (top st)\<lparr>cur := Quest (\<not> g) r # rs\<rparr>, rep := 2\<rparr>)
         | _ \<Rightarrow> Inl unsupported)
      else if rep st \<noteq> 0 then Inl ''invalid nested repetition operator''
      else
        (case cur (top st) of
           [] \<Rightarrow> Inl ''missing argument to repetition operator''
         | r # rs \<Rightarrow>
             (let g = \<not> unGreedy (fl st) in
              if c = CHR ''?''
              then Inr (st\<lparr>top := (top st)\<lparr>cur := Quest g r # rs\<rparr>, rep := 1\<rparr>)
              else
                (case r of
                   Chars cs \<Rightarrow>
                     Inr (st\<lparr>top := (top st)\<lparr>cur := (if c = CHR ''*'' then Star g cs
                                                          else Plus g cs) # rs\<rparr>,
                             rep := 1\<rparr>)
                 | _ \<Rightarrow> Inl unsupported))))"

definition normal_step :: "pstate \<Rightarrow> char \<Rightarrow> string + pstate" where
  "normal_step st c =
     (if c = CHR 0x5C then Inr (st\<lparr>mode := Escape\<rparr>)
      else if c = CHR ''('' then Inr (st\<lparr>mode := Opened\<rparr>)
      else if c = CHR '')'' then close_group st
      else if c = CHR ''|'' then
        Inr (st\<lparr>top := (top st)\<lparr>alts := concat_of (cur (top st)) # alts (top st), cur := []\<rparr>,
                rep := 0\<rparr>)
      else if c = CHR ''['' then Inr (st\<lparr>mode := ClassStart\<rparr>)
      else if c = CHR ''*'' \<or> c = CHR ''+'' \<or> c = CHR ''?'' then repeat_op st c
      else if c = CHR ''.'' then Inr (add_item st (Chars (Dot (dotNL (fl st)))))
      else if c = CHR ''^'' then
        Inr (add_item st (if multiLine (fl st) then BeginLine else BeginText))
      else if c = CHR ''$'' then
        Inr (add_item st (if multiLine (fl st) then EndLine else EndText))
      else if c = CHR ''{'' then Inl unsupported
      else Inr (add_item st (Chars (Lit (foldCase (fl st)) c))))"

definition escape_step :: "pstate \<Rightarrow> char \<Rightarrow> string + pstate" where
  "escape_step st c =
     (case perl_class c of
        Some it \<Rightarrow> Inr (add_item st (Chars (Class False (foldCase (fl st)) [it])))
      | None \<Rightarrow>
          (case escape_lit c of
             Some x \<Rightarrow> Inr (add_item st (Chars (Lit (foldCase (fl st)) x)))
           | None \<Rightarrow>
               if c = CHR ''A'' then Inr (add_item st BeginText)
               else if c = CHR ''z'' then Inr (add_item st EndText)
               else Inl ''invalid or unsupported escape sequence''))"

text \<open>
  Inside \<^verbatim>\<open>(?\<close>: a flag letter sets its flag, or clears it after the minus;
  \<^verbatim>\<open>)\<close> puts the flags in force for the rest of the group around, \<^verbatim>\<open>:\<close> opens a
  group that does not capture.
\<close>

definition flag_step :: "pstate \<Rightarrow> bool \<Rightarrow> bool \<Rightarrow> flags \<Rightarrow> char \<Rightarrow> string + pstate" where
  "flag_step st neg saw f c =
     (if c = CHR ''i'' then Inr (st\<lparr>mode := InFlags neg True (f\<lparr>foldCase := \<not> neg\<rparr>)\<rparr>)
      else if c = CHR ''m'' then Inr (st\<lparr>mode := InFlags neg True (f\<lparr>multiLine := \<not> neg\<rparr>)\<rparr>)
      else if c = CHR ''s'' then Inr (st\<lparr>mode := InFlags neg True (f\<lparr>dotNL := \<not> neg\<rparr>)\<rparr>)
      else if c = CHR ''U'' then Inr (st\<lparr>mode := InFlags neg True (f\<lparr>unGreedy := \<not> neg\<rparr>)\<rparr>)
      else if c = CHR ''-'' then
        (if neg then Inl ''invalid or unsupported Perl syntax''
         else Inr (st\<lparr>mode := InFlags True False f\<rparr>))
      else if c = CHR '':'' \<or> c = CHR '')'' then
        (if neg \<and> \<not> saw then Inl ''invalid or unsupported Perl syntax''
         else if c = CHR '':'' then Inr (open_group st False f)
         else Inr (st\<lparr>mode := Normal, fl := f, rep := 0\<rparr>))
      else if c = CHR ''P'' \<or> c = CHR ''<'' then Inl unsupported
      else Inl ''invalid or unsupported Perl syntax'')"

text \<open>
  Inside a bracket class: characters, ranges \<^verbatim>\<open>lo-hi\<close> and escapes.
\<close>

definition flush :: "pending \<Rightarrow> citem list" where
  "flush p = (case p of PNone \<Rightarrow> [] | PChar x \<Rightarrow> [Range x x]
              | PDash lo \<Rightarrow> [Range lo lo, Range 45 45])"

definition class_char :: "pstate \<Rightarrow> bool \<Rightarrow> citem list \<Rightarrow> pending \<Rightarrow> nat \<Rightarrow> string + pstate" where
  "class_char st neg items p b =
     (case p of
        PDash lo \<Rightarrow>
          if lo \<le> b then Inr (st\<lparr>mode := InClass neg False (items @ [Range lo b]) PNone\<rparr>)
          else Inl ''invalid character class range''
      | PChar x \<Rightarrow> Inr (st\<lparr>mode := InClass neg False (items @ [Range x x]) (PChar b)\<rparr>)
      | PNone \<Rightarrow> Inr (st\<lparr>mode := InClass neg False items (PChar b)\<rparr>))"

definition class_step ::
  "pstate \<Rightarrow> bool \<Rightarrow> bool \<Rightarrow> citem list \<Rightarrow> pending \<Rightarrow> char \<Rightarrow> string + pstate" where
  "class_step st neg first items p c =
     (if c = CHR '']'' \<and> \<not> first then
        Inr (add_item st (Chars (Class neg (foldCase (fl st)) (items @ flush p))))
      else if c = CHR 0x5C then Inr (st\<lparr>mode := ClassEscape neg items p\<rparr>)
      else if c = CHR ''['' then Inl unsupported
      else if c = CHR ''-'' \<and> (case p of PChar x \<Rightarrow> True | _ \<Rightarrow> False) then
        (case p of PChar x \<Rightarrow> Inr (st\<lparr>mode := InClass neg False items (PDash x)\<rparr>)
         | _ \<Rightarrow> Inl unsupported)
      else class_char st neg items p (of_char c))"

definition class_escape_step ::
  "pstate \<Rightarrow> bool \<Rightarrow> citem list \<Rightarrow> pending \<Rightarrow> char \<Rightarrow> string + pstate" where
  "class_escape_step st neg items p c =
     (case perl_class c of
        Some it \<Rightarrow>
          (case p of
             PDash lo \<Rightarrow> Inl ''invalid character class range''
           | _ \<Rightarrow> Inr (st\<lparr>mode := InClass neg False (items @ flush p @ [it]) PNone\<rparr>))
      | None \<Rightarrow>
          (case escape_lit c of
             Some x \<Rightarrow> class_char st neg items p (of_char x)
           | None \<Rightarrow> Inl ''invalid or unsupported escape sequence''))"

definition step :: "pstate \<Rightarrow> char \<Rightarrow> string + pstate" where
  "step st c =
     (case mode st of
        Normal \<Rightarrow> normal_step st c
      | Escape \<Rightarrow> escape_step st c
      | Opened \<Rightarrow>
          if c = CHR ''?'' then Inr (st\<lparr>mode := InFlags False False (fl st)\<rparr>)
          else normal_step (open_group st True (fl st)) c
      | InFlags neg saw f \<Rightarrow> flag_step st neg saw f c
      | ClassStart \<Rightarrow>
          if c = CHR ''^'' then Inr (st\<lparr>mode := InClass True True [] PNone\<rparr>)
          else class_step st False True [] PNone c
      | InClass neg first items p \<Rightarrow> class_step st neg first items p c
      | ClassEscape neg items p \<Rightarrow> class_escape_step st neg items p c)"

fun parse_chars :: "pstate \<Rightarrow> string \<Rightarrow> string + pstate" where
  "parse_chars st [] = Inr st"
| "parse_chars st (c # cs) =
     (case step st c of Inl e \<Rightarrow> Inl e | Inr st' \<Rightarrow> parse_chars st' cs)"

text \<open>
  \<^verbatim>\<open>*regexp.Regexp\<close>: the source text, the expression and the number of capturing
  groups.  \<open>rx_Compile\<close> is \<^verbatim>\<open>regexp.Compile\<close> (the flags of \<^verbatim>\<open>syntax.Perl\<close>:
  none of \<^verbatim>\<open>i m s U\<close> is on at the start), \<open>rx_FindStringSubmatch\<close> is
  \<^verbatim>\<open>FindStringSubmatch\<close>: the text of the match, then the text of each group, empty
  for a group that took no part.
\<close>

record Regexp =
  expr :: string
  prog :: re
  numSubexp :: nat

definition perl_flags :: flags where
  "perl_flags = \<lparr>foldCase = False, multiLine = False, dotNL = False, unGreedy = False\<rparr>"

definition initial :: pstate where
  "initial = \<lparr>mode = Normal, fl = perl_flags,
              top = \<lparr>capno = None, saved = perl_flags, alts = [], cur = []\<rparr>,
              outer = [], ncap = 0, rep = 0\<rparr>"

definition rx_Compile :: "string \<Rightarrow> string + Regexp" where
  "rx_Compile pattern =
     (case parse_chars initial pattern of
        Inl e \<Rightarrow> Inl e
      | Inr st \<Rightarrow>
          (case mode st of
             Normal \<Rightarrow>
               if outer st = []
               then Inr \<lparr>expr = pattern, prog = frame_re (top st), numSubexp = ncap st\<rparr>
               else Inl ''missing closing )''
           | Escape \<Rightarrow> Inl ''trailing backslash at end of expression''
           | Opened \<Rightarrow> Inl ''missing closing )''
           | InFlags neg saw f \<Rightarrow> Inl ''missing closing )''
           | _ \<Rightarrow> Inl ''missing closing ]''))"

definition slice :: "string \<Rightarrow> nat \<Rightarrow> nat \<Rightarrow> string" where
  "slice s b e = take (e - b) (drop b s)"

definition rx_FindStringSubmatch :: "Regexp \<Rightarrow> string \<Rightarrow> string list option" where
  "rx_FindStringSubmatch r s =
     (case find_from (prog r) (numSubexp r) None 0 s of
        None \<Rightarrow> None
      | Some ((b, e), caps) \<Rightarrow>
          Some (slice s b e #
                map (\<lambda>c. case c of None \<Rightarrow> [] | Some (b', e') \<Rightarrow> slice s b' e') caps))"


subsection \<open>reflect: StructTag.Lookup\<close>

text \<open>
  The loop of \<^verbatim>\<open>StructTag.Lookup\<close> over the \<^verbatim>\<open>key:"value"\<close> pairs of a tag.
  \<open>Unquote\<close> is \<^verbatim>\<open>strconv.Unquote\<close> on a double-quoted string with the one-letter
  escapes; the numeric escapes are outside the model.
\<close>

definition name_char :: "char \<Rightarrow> bool" where
  "name_char c =
     ((of_char c :: nat) > 32 \<and> c \<noteq> CHR '':'' \<and> c \<noteq> CHR 0x22 \<and> c \<noteq> CHR 0x7F)"

fun scan_quoted :: "string \<Rightarrow> nat \<Rightarrow> nat" where
  "scan_quoted [] i = i"
| "scan_quoted [c] i = (if c = CHR 0x22 then i else if c = CHR 0x5C then i + 2 else i + 1)"
| "scan_quoted (c # d # cs) i =
     (if c = CHR 0x22 then i
      else if c = CHR 0x5C then scan_quoted cs (i + 2)
      else scan_quoted (d # cs) (i + 1))"

definition simple_escape :: "char \<Rightarrow> char option" where
  "simple_escape e =
     (if e = CHR ''a'' then Some (CHR 0x07)
      else if e = CHR ''b'' then Some (CHR 0x08)
      else if e = CHR ''f'' then Some (CHR 0x0C)
      else if e = CHR ''n'' then Some (CHR 0x0A)
      else if e = CHR ''r'' then Some (CHR 0x0D)
      else if e = CHR ''t'' then Some (CHR 0x09)
      else if e = CHR ''v'' then Some (CHR 0x0B)
      else if e = CHR 0x5C then Some (CHR 0x5C)
      else if e = CHR 0x22 then Some (CHR 0x22)
      else None)"

fun unquote_body :: "string \<Rightarrow> string option" where
  "unquote_body [] = Some []"
| "unquote_body [c] =
     (if c = CHR 0x0A \<or> c = CHR 0x5C \<or> c = CHR 0x22 then None else Some [c])"
| "unquote_body (c # d # cs) =
     (if c = CHR 0x0A \<or> c = CHR 0x22 then None
      else if c = CHR 0x5C then
        (case simple_escape d of
           None \<Rightarrow> None
         | Some x \<Rightarrow> map_option ((#) x) (unquote_body cs))
      else map_option ((#) c) (unquote_body (d # cs)))"

definition Unquote :: "string \<Rightarrow> string option" where
  "Unquote q =
     (if length q < 2 \<or> hd q \<noteq> CHR 0x22 \<or> last q \<noteq> CHR 0x22 then None
      else unquote_body (butlast (tl q)))"

function Lookup :: "string \<Rightarrow> string \<Rightarrow> string option" where
  "Lookup tag key =
     (let t1 = dropWhile (\<lambda>c. c = CHR '' '') tag in
      if t1 = [] then None
      else
        (let i = length (takeWhile name_char t1) in
         if i = 0 \<or> i + 1 \<ge> length t1 \<or> t1 ! i \<noteq> CHR '':'' \<or> t1 ! (i + 1) \<noteq> CHR 0x22
         then None
         else
           (let name = take i t1; t2 = drop (i + 1) t1; j = scan_quoted (tl t2) 1 in
            if j \<ge> length t2 then None
            else
              (let qvalue = take (j + 1) t2; t3 = drop (j + 1) t2 in
               if key = name then Unquote qvalue
               else Lookup t3 key))))"
  by pat_completeness auto
termination
proof (relation "measure (\<lambda>(tag, key). length tag)", goal_cases)
  case 1
  show ?case by simp
next
  case (2 tag key t1 i name t2 j qvalue t3)
  have "length t1 \<le> length tag"
    unfolding 2 by (rule length_dropWhile_le)
  moreover have "t1 \<noteq> []" using 2 by simp
  moreover have "length t3 < length t1"
    using \<open>t1 \<noteq> []\<close> unfolding \<open>t3 = _\<close> \<open>t2 = _\<close> by simp
  ultimately show ?case by simp
qed

declare Lookup.simps [simp del]


subsection \<open>strconv and float64, float32\<close>



text \<open>
  A finite value is sign, mantissa and exponent, for \<open>m * 2 ^ e\<close> with \<open>m\<close> odd, or
  \<open>Finite s 0 0\<close> for a zero.
\<close>

datatype float = Finite bool nat int | Inf bool | NaN

text \<open>
  \<open>bitlen n\<close> is the number of bits of \<open>n\<close>; \<open>normal\<close> makes the mantissa odd;
  \<open>round_div n d\<close> is the integer nearest to \<open>n / d\<close>, ties to even;
  \<open>round_to p emin emax n d\<close> is the nearest value to \<open>n / d\<close> with \<open>p\<close> bits of
  mantissa and no exponent below \<open>emin\<close> (subnormal numbers), or nothing when the
  value reaches \<open>2 ^ emax\<close>.
\<close>

fun bitlen :: "nat \<Rightarrow> nat" where
  "bitlen n = (if n = 0 then 0 else Suc (bitlen (n div 2)))"

declare bitlen.simps [simp del]

function normal :: "nat \<Rightarrow> int \<Rightarrow> nat \<times> int" where
  "normal m e =
     (if m = 0 then (0, 0)
      else if even m then normal (m div 2) (e + 1)
      else (m, e))"
  by pat_completeness auto
termination
  by (relation "measure (\<lambda>(m, e). m)") auto

declare normal.simps [simp del]

definition round_div :: "nat \<Rightarrow> nat \<Rightarrow> nat" where
  "round_div n d =
     (let q = n div d; r = n mod d in
      if 2 * r < d then q
      else if 2 * r > d then Suc q
      else if even q then q else Suc q)"

definition round_to :: "nat \<Rightarrow> int \<Rightarrow> int \<Rightarrow> nat \<Rightarrow> nat \<Rightarrow> (nat \<times> int) option" where
  "round_to p emin emax n d =
     (if n = 0 then Some (0, 0)
      else
        (let e0 = int (bitlen n) - int (bitlen d) - int p;
             e1 = (if n * 2 ^ nat (- e0) < d * 2 ^ nat e0 * 2 ^ p then e0 else e0 + 1);
             e = max e1 emin;
             m = round_div (n * 2 ^ nat (- e)) (d * 2 ^ nat e)
         in if int (bitlen m) + e > emax then None else Some (normal m e)))"

text \<open>
  \<^verbatim>\<open>strconv.ParseFloat(s, 64)\<close> on decimal text: an optional sign, digits with an
  optional point, an optional exponent, and the infinities and NaN by name.
  Hexadecimal floats are outside the model.  The result is the nearest float64,
  ties to even; a value too large is a range error.
\<close>

definition is_digit :: "char \<Rightarrow> bool" where
  "is_digit c = (48 \<le> (of_char c :: nat) \<and> (of_char c :: nat) \<le> 57)"

definition digits_value :: "string \<Rightarrow> nat" where
  "digits_value ds = foldl (\<lambda>n c. 10 * n + (of_char c - 48)) 0 ds"

definition lower :: "char \<Rightarrow> nat" where
  "lower c = (if 65 \<le> (of_char c :: nat) \<and> (of_char c :: nat) \<le> 90
              then (of_char c :: nat) + 32 else of_char c)"

definition special :: "string \<Rightarrow> float option" where
  "special s =
     (if map lower s \<in> set (map (map of_char) [''inf'', ''+inf'', ''infinity'', ''+infinity''])
      then Some (Inf False)
      else if map lower s \<in> set (map (map of_char) [''-inf'', ''-infinity'']) then Some (Inf True)
      else if map lower s = map of_char ''nan'' then Some NaN
      else None)"

text \<open>The sign, if any, and the rest.\<close>

definition read_sign :: "string \<Rightarrow> bool \<times> string" where
  "read_sign s =
     (case s of
        [] \<Rightarrow> (False, [])
      | c # cs \<Rightarrow> if c = CHR ''-'' then (True, cs) else if c = CHR ''+'' then (False, cs)
                 else (False, s))"

definition read_digits :: "string \<Rightarrow> string \<times> string" where
  "read_digits s = (takeWhile is_digit s, dropWhile is_digit s)"

definition read_fraction :: "string \<Rightarrow> string \<times> string" where
  "read_fraction s =
     (case s of
        [] \<Rightarrow> ([], [])
      | c # cs \<Rightarrow> if c = CHR ''.'' then read_digits cs else ([], s))"

text \<open>The exponent part: none, malformed (\<open>None\<close>), or its value, and the rest.\<close>

definition read_exponent :: "string \<Rightarrow> (int \<times> string) option" where
  "read_exponent s =
     (case s of
        [] \<Rightarrow> Some (0, [])
      | c # cs \<Rightarrow>
          if c = CHR ''e'' \<or> c = CHR ''E'' then
            (case read_sign cs of
               (eneg, r) \<Rightarrow>
                 (case read_digits r of
                    (ex, r') \<Rightarrow>
                      if ex = [] then None
                      else Some (if eneg then - int (digits_value ex) else int (digits_value ex),
                                 r')))
          else Some (0, s))"

definition decimal_to_float64 :: "string \<Rightarrow> bool \<Rightarrow> nat \<Rightarrow> int \<Rightarrow> NumError + float" where
  "decimal_to_float64 s neg mant e10 =
     (case round_to 53 (- 1074) 1024 (mant * 10 ^ nat e10) (10 ^ nat (- e10)) of
        None \<Rightarrow> Inl (NumError ''ParseFloat'' s ErrRange)
      | Some (m, e) \<Rightarrow> Inr (Finite neg m e))"

definition ParseFloat64 :: "string \<Rightarrow> NumError + float" where
  "ParseFloat64 s =
     (case special s of
        Some f \<Rightarrow> Inr f
      | None \<Rightarrow>
          (case read_sign s of
             (neg, s1) \<Rightarrow>
               (case read_digits s1 of
                  (ip, r1) \<Rightarrow>
                    (case read_fraction r1 of
                       (fp, r2) \<Rightarrow>
                         if ip = [] \<and> fp = [] then Inl (NumError ''ParseFloat'' s ErrSyntax)
                         else
                           (case read_exponent r2 of
                              None \<Rightarrow> Inl (NumError ''ParseFloat'' s ErrSyntax)
                            | Some (ex, r3) \<Rightarrow>
                                if r3 \<noteq> [] then Inl (NumError ''ParseFloat'' s ErrSyntax)
                                else decimal_to_float64 s neg (digits_value (ip @ fp))
                                       (ex - int (length fp)))))))"

text \<open>
  The conversion \<^verbatim>\<open>float32(x)\<close>: the nearest value with 24 bits of mantissa, or an
  infinity.
\<close>

definition float32 :: "float \<Rightarrow> float" where
  "float32 x =
     (case x of
        Finite s m e \<Rightarrow>
          (case round_to 24 (- 149) 128 (m * 2 ^ nat e) (2 ^ nat (- e)) of
             None \<Rightarrow> Inf s
           | Some (m', e') \<Rightarrow> Finite s m' e')
      | _ \<Rightarrow> x)"


subsection \<open>The library that runs\<close>

text \<open>
  The engine, the tag lookup and the floating point of the models above.
\<close>

definition golib :: "(Regexp, float) lib" where
  "golib = \<lparr>regexp_Compile = rx_Compile, NumSubexp = numSubexp,
             FindStringSubmatch = rx_FindStringSubmatch, Tag_Lookup = Lookup,
             ParseFloat = ParseFloat64, to_float32 = float32\<rparr>"

section \<open>The words of the specification\<close>

text \<open>
  The definitions of this section are not translations of the code: they say, in
  the words of the specification, what the theorems compare the code with.

  A supported kind is a boolean, a signed or unsigned integer of any width, a floating
  point number of either width, or text.
\<close>

definition supported :: "Kind \<Rightarrow> bool" where
  "supported k =
     (k = KBool \<or> k = KInt \<or> k = KInt8 \<or> k = KInt16 \<or> k = KInt32 \<or> k = KInt64
      \<or> k = KUint \<or> k = KUint8 \<or> k = KUint16 \<or> k = KUint32 \<or> k = KUint64
      \<or> k = KFloat32 \<or> k = KFloat64 \<or> k = KString)"

text \<open>
  A field is skipped when it is not externally visible or when its fragment is the lone
  dash or empty; the others are the fields that compilation looks at.
\<close>

definition skipped :: "('r, 'f) lib \<Rightarrow> StructField \<Rightarrow> bool" where
  "skipped lib ft = (PkgPath ft \<noteq> [] \<or> fragment lib ft = ''-'' \<or> fragment lib ft = [])"

definition recognized :: "('r, 'f) lib \<Rightarrow> StructField \<Rightarrow> bool" where
  "recognized lib ft = (\<not> skipped lib ft)"

definition recognized_fields :: "('r, 'f) lib \<Rightarrow> StructField list \<Rightarrow> StructField list" where
  "recognized_fields lib fs = filter (recognized lib) fs"

definition recognized_indices :: "('r, 'f) lib \<Rightarrow> StructField list \<Rightarrow> nat list" where
  "recognized_indices lib fs = filter (\<lambda>j. recognized lib (fs ! j)) [0..<length fs]"

text \<open>
  The composite pattern: the mode prefix, then delimiter and fragment for every
  recognized field in declaration order.
\<close>

definition composite :: "('r, 'f) lib \<Rightarrow> string \<Rightarrow> StructField list \<Rightarrow> string" where
  "composite lib delim fs =
     ''(?mU)'' @ concat (map (\<lambda>ft. delim @ fragment lib ft) (recognized_fields lib fs))"

text \<open>An argument of a struct type with the fields \<open>fs\<close>, or of a pointer type to one.\<close>

definition struct_shape :: "'v iface \<Rightarrow> StructField list \<Rightarrow> bool" where
  "struct_shape structure fs =
     (TypeOf structure = Some (StructType fs)
      \<or> TypeOf structure = Some (PtrType (StructType fs)))"

text \<open>
  The first field, in declaration order, that compilation looks at and that has no
  supported kind is the one the error names.
\<close>

definition unsupported_field :: "('r, 'f) lib \<Rightarrow> StructField \<Rightarrow> bool" where
  "unsupported_field lib ft = (recognized lib ft \<and> \<not> supported (TypeKind ft))"




text \<open>
  Base-10 text: a run of digits; for a signed integer an optional sign before it.
  Text is in the 64-bit range when its value is below \<open>2 ^ 64\<close>, for a signed integer
  from \<open>- 2 ^ 63\<close> to \<open>2 ^ 63 - 1\<close>.  \<open>width\<close> is the declared width of an integer
  kind, with 64 bits for \<^verbatim>\<open>int\<close> and \<^verbatim>\<open>uint\<close>.
\<close>

definition decimal_digits :: "string \<Rightarrow> bool" where
  "decimal_digits ds = (ds \<noteq> [] \<and> list_all is_digit ds)"

definition uint64_text :: "string \<Rightarrow> bool" where
  "uint64_text s = (decimal_digits s \<and> digits_value s < 2 ^ 64)"

definition int64_text :: "string \<Rightarrow> bool" where
  "int64_text s =
     (case read_sign s of
        (neg, ds) \<Rightarrow>
          decimal_digits ds
          \<and> (if neg then digits_value ds \<le> 2 ^ 63 else digits_value ds < 2 ^ 63))"

definition int64_value :: "string \<Rightarrow> int" where
  "int64_value s =
     (case read_sign s of
        (neg, ds) \<Rightarrow> if neg then - int (digits_value ds) else int (digits_value ds))"

definition width :: "Kind \<Rightarrow> nat" where
  "width k =
     (if k = KInt8 \<or> k = KUint8 then 8
      else if k = KInt16 \<or> k = KUint16 then 16
      else if k = KInt32 \<or> k = KUint32 then 32
      else 64)"

definition signed_kind :: "Kind \<Rightarrow> bool" where
  "signed_kind k = (k = KInt \<or> k = KInt8 \<or> k = KInt16 \<or> k = KInt32 \<or> k = KInt64)"

definition unsigned_kind :: "Kind \<Rightarrow> bool" where
  "unsigned_kind k = (k = KUint \<or> k = KUint8 \<or> k = KUint16 \<or> k = KUint32 \<or> k = KUint64)"

text \<open>
  The use of the package as the README shows it: compile, return the error if there
  is one, otherwise unmarshal.
\<close>

definition compile_and_unmarshal ::
  "('r, 'f) lib \<Rightarrow> 'v iface \<Rightarrow> string \<Rightarrow> 'f target \<Rightarrow> error option go \<times> 'f target" where
  "compile_and_unmarshal lib structure data dest =
     (case Compile lib structure of
        Panics \<Rightarrow> (Panics, dest)
      | Returns (Inl err) \<Rightarrow> (Returns (Some err), dest)
      | Returns (Inr m) \<Rightarrow> Unmarshal lib m data dest)"

section \<open>Shapes and inputs of the scenarios\<close>

text \<open>
  \<open>dq\<close> is the double quote.  An exported field has the empty \<^verbatim>\<open>PkgPath\<close>, an
  unexported one the path of its package.
\<close>

abbreviation (input) dq :: string where
  "dq \<equiv> [CHR 0x22]"

definition exported :: "string \<Rightarrow> string \<Rightarrow> Kind \<Rightarrow> StructField" where
  "exported name tag k = \<lparr>Name = name, PkgPath = [], Tag = tag, TypeKind = k\<rparr>"

definition unexported :: "string \<Rightarrow> string \<Rightarrow> Kind \<Rightarrow> StructField" where
  "unexported name tag k = \<lparr>Name = name, PkgPath = ''sfmatch'', Tag = tag, TypeKind = k\<rparr>"

definition pointer_to :: "StructField list \<Rightarrow> unit iface" where
  "pointer_to fs = (Some (PtrType (StructType fs)), ())"

definition sample_shape :: "StructField list" where
  "sample_shape =
     [exported ''Empty'' [] KString,
      exported ''Nested'' ''-'' KStruct,
      exported ''A'' (''sfmatch:'' @ dq @ ''a=('' @ bs @ bs @ ''S+)'' @ dq) KInt8,
      unexported ''hidden'' ''(x)'' KString,
      exported ''B'' (''b=('' @ bs @ ''S+)'') KBool,
      exported ''C'' (''c=('' @ bs @ ''S+)'') KUint]"


text \<open>
  Variables of a destination: \<open>var\<close> can be set, \<open>locked\<close> cannot.  The sample
  shape has a field with no tag, a nested struct with the dash, an unexported field
  with a fragment, and three recognized fields; its delimiter in the scenarios is an
  optional space.
\<close>

definition var :: "Kind \<Rightarrow> 'f contents \<Rightarrow> 'f Value" where
  "var k c = \<lparr>CanSet = True, kind = k, holds = c\<rparr>"

definition locked :: "Kind \<Rightarrow> 'f contents \<Rightarrow> 'f Value" where
  "locked k c = \<lparr>CanSet = False, kind = k, holds = c\<rparr>"

definition sample_vars :: "float Value list" where
  "sample_vars =
     [var KString (StringOf ''e''), var KStruct NoContents, var KInt8 (IntOf 1),
      locked KString (StringOf ''h''), var KBool (BoolOf False), var KUint (UintOf 3)]"

definition sample_locked :: "float Value list" where
  "sample_locked =
     [locked KString (StringOf ''e''), locked KStruct NoContents, locked KInt8 (IntOf 1),
      locked KString (StringOf ''h''), locked KBool (BoolOf False), locked KUint (UintOf 3)]"

definition sample_input :: string where
  "sample_input = ''a=7 b=maybe c=9''"

definition opusenc_shape :: "StructField list" where
  "opusenc_shape =
     [exported ''Encoded'' (''sfmatch:'' @ dq @ ''Encoded: (.+)'' @ dq) KString,
      exported ''WroteBytes'' (''Wrote: ('' @ bs @ ''d+) bytes'') KUint64,
      exported ''Overhead''
        (''Overhead: (.+)% '' @ bs @ ''(container'' @ bs @ ''+metadata'' @ bs @ '')'') KFloat32]"

definition opusenc_input :: string where
  "opusenc_input =
     ''Encoded: 4 minutes\<newline>Wrote: 3853633 bytes, 13582 packets\<newline>Overhead: 3.39% (container+metadata)''"

definition opusenc_zero :: "float Value list" where
  "opusenc_zero =
     [var KString (StringOf []), var KUint64 (UintOf 0), var KFloat32 (FloatOf (Finite False 0 0))]"

definition fail1_shape :: "StructField list" where
  "fail1_shape = [exported ''UnsupportedType'' (''sfmatch:'' @ dq @ ''valid regex'' @ dq) KStruct]"

definition skip_shape :: "StructField list" where
  "skip_shape = [exported ''Nested'' ''-'' KStruct, exported ''Other'' [] KStruct]"

definition letter_shape :: "StructField list" where
  "letter_shape = [exported ''F'' ''(a)'' KString]"

text \<open>
  The struct and the output of \<^verbatim>\<open>TestMatch\<close>, and the struct of
  \<^verbatim>\<open>TestAllTypes\<close>, from the tests of the package.
\<close>

definition test_opusenc :: "StructField list" where
  "test_opusenc =
     [exported ''Empty'' [] KString,
      exported ''MoreEmpty'' ''-'' KString,
      exported ''EvenMoreEmpty'' (''sfmatch:'' @ dq @ ''-'' @ dq) KString,
      exported ''Encoded'' (''sfmatch:'' @ dq @ ''Encoded: (.+)'' @ dq) KString,
      exported ''Runtime'' (''sfmatch:'' @ dq @ ''Runtime: (.+)'' @ dq) KString,
      exported ''RealtimeMult'' (bs @ ''((.+)x realtime'' @ bs @ '')'') KFloat32,
      unexported ''nonExported'' [] KString,
      exported ''WroteBytes'' (''Wrote: ('' @ bs @ ''d+) bytes'') KUint64,
      exported ''Bitrate'' (''Bitrate: (.+) kbit/s '' @ bs @ ''(without overhead'' @ bs @ '')'') KFloat32,
      exported ''Overhead''
        (''Overhead: (.+)% '' @ bs @ ''(container'' @ bs @ ''+metadata'' @ bs @ '')'') KFloat32]"

definition test_output :: string where
  "test_output = ''\<newline>Encoding complete\<newline>-----------------------------------------------------\<newline>       Encoded: 4 minutes and 31.64 seconds\<newline>       Runtime: 4 seconds\<newline>                (67.91x realtime)\<newline>         Wrote: 3853633 bytes, 13582 packets, 275 pages\<newline>       Bitrate: 109.64 kbit/s (without overhead)\<newline> Instant rates: 1.2 to 193.2 kbit/s\<newline>                (3 to 483 bytes per packet)\<newline>      Overhead: 3.39% (container+metadata)\<newline>''"

definition all_types :: "StructField list" where
  "all_types =
     [exported ''Bool'' (''sfmatch:'' @ dq @ ''('' @ bs @ bs @ ''S+)'' @ dq) KBool,
      exported ''Int'' (''sfmatch:'' @ dq @ ''('' @ bs @ bs @ ''S+)'' @ dq) KInt,
      exported ''Uint'' (''sfmatch:'' @ dq @ ''('' @ bs @ bs @ ''S+)'' @ dq) KUint,
      exported ''Float'' (''sfmatch:'' @ dq @ ''('' @ bs @ bs @ ''S+)'' @ dq) KFloat64,
      exported ''String'' (''sfmatch:'' @ dq @ ''('' @ bs @ bs @ ''S+)$'' @ dq) KString]"

text \<open>A shape with an 8-bit signed and an 8-bit unsigned field.\<close>

definition narrow_shape :: "StructField list" where
  "narrow_shape =
     [exported ''N'' (''n=('' @ bs @ ''d+) '') KInt8,
      exported ''U'' (''u=('' @ bs @ ''d+)$'') KUint8]"

section \<open>Properties\<close>

subsection \<open>Evaluation\<close>

text \<open>
  The definitions that evaluate the engine, the tag lookup and the shapes on a
  concrete pattern, tag or text.
\<close>

lemmas rx_defs =
  rx_Compile_def initial_def perl_flags_def step_def normal_step_def escape_step_def
  flag_step_def class_step_def class_char_def class_escape_step_def add_item_def
  open_group_def close_group_def repeat_op_def perl_class_def escape_lit_def flush_def
  frame_re_def in_ranges_def rx_FindStringSubmatch_def slice_def other_case_def
  digit_ranges_def space_ranges_def word_ranges_def

lemmas tag_defs = fragment_def Lookup.simps name_char_def Unquote_def simple_escape_def

lemmas golib_simps = golib_def exported_def unexported_def pointer_to_def

lemma sample_recognized:
  "recognized_fields golib sample_shape = [sample_shape ! 2, sample_shape ! 4, sample_shape ! 5]"
  "recognized_indices golib sample_shape = [2, 4, 5]"
  by (simp_all add: recognized_fields_def recognized_indices_def recognized_def skipped_def
      sample_shape_def golib_simps tag_defs upt_rec)


subsection \<open>What typeParser does without a settable value\<close>

lemma typeParser_cannot_set:
  "\<not> CanSet v \<Longrightarrow>
   typeParser lib k input v = Returns (if supported k then None else Some ErrUnsupportedKind, v)"
  by (cases k) (simp_all add: typeParser_def supported_def)

lemma typeParser_zero_Value:
  "typeParser lib k input zero_Value =
     Returns (if supported k then None else Some ErrUnsupportedKind, zero_Value)"
  by (rule typeParser_cannot_set) (simp add: zero_Value_def)

subsection \<open>The loop of CompileWithDelimiter\<close>

lemma recognized_indices_Cons:
  "recognized_indices lib (ft # rest) =
     (if recognized lib ft then [0] else []) @ map Suc (recognized_indices lib rest)"
proof -
  have "[0..<length (ft # rest)] = 0 # map Suc [0..<length rest]"
    by (simp add: upt_conv_Cons map_Suc_upt del: upt_Suc)
  then show ?thesis
    by (simp add: recognized_indices_def filter_map comp_def)
qed

lemma recognized_fields_Cons:
  "recognized_fields lib (ft # rest) =
     (if recognized lib ft then [ft] else []) @ recognized_fields lib rest"
  by (simp add: recognized_fields_def)

lemma shifted_indices_Cons:
  "map ((+) i) (recognized_indices lib (ft # rest)) =
     (if recognized lib ft then [i] else []) @ map ((+) (Suc i)) (recognized_indices lib rest)"
  by (simp add: recognized_indices_Cons comp_def)

lemma recognized_Nil:
  "recognized_indices lib [] = []" "recognized_fields lib [] = []"
  by (simp_all add: recognized_indices_def recognized_fields_def)

lemma length_recognized_indices:
  "length (recognized_indices lib fs) = length (recognized_fields lib fs)"
  by (induction fs) (simp_all add: recognized_indices_Cons recognized_fields_Cons recognized_Nil)

lemma map_add_0: "map ((+) (0::nat)) xs = xs"
  by (induction xs) simp_all

lemma compile_loop_eq:
  "compile_loop lib delim fs i (rx, flds, knds) =
     (case find (unsupported_field lib) fs of
        Some ft \<Rightarrow> Returns (Inl (FailedToUseField (Name ft) ErrUnsupportedKind))
      | None \<Rightarrow>
          Returns (Inr (rx @ concat (map (\<lambda>ft. delim @ fragment lib ft) (recognized_fields lib fs)),
                        flds @ map ((+) i) (recognized_indices lib fs),
                        knds @ map TypeKind (recognized_fields lib fs))))"
proof (induction fs arbitrary: i rx flds knds)
  case Nil
  show ?case by (simp add: recognized_fields_def recognized_indices_def)
next
  case (Cons ft rest)
  show ?case
  proof (cases "recognized lib ft")
    case False
    then have step: "compile_loop lib delim (ft # rest) i (rx, flds, knds) =
               compile_loop lib delim rest (Suc i) (rx, flds, knds)"
      by (auto simp: recognized_def skipped_def Let_def)
    from False have "\<not> unsupported_field lib ft"
      by (simp add: unsupported_field_def)
    with False show ?thesis
      unfolding step Cons.IH shifted_indices_Cons recognized_fields_Cons
      by (simp split: option.splits)
  next
    case True
    then have vis: "PkgPath ft = []" "fragment lib ft \<noteq> ''-''" "fragment lib ft \<noteq> []"
      by (simp_all add: recognized_def skipped_def)
    show ?thesis
    proof (cases "supported (TypeKind ft)")
      case False
      with True have "unsupported_field lib ft"
        by (simp add: unsupported_field_def)
      moreover from False vis
      have "compile_loop lib delim (ft # rest) i (rx, flds, knds) =
              Returns (Inl (FailedToUseField (Name ft) ErrUnsupportedKind))"
        by (simp add: typeParser_zero_Value)
      ultimately show ?thesis by simp
    next
      case sup: True
      with vis have step: "compile_loop lib delim (ft # rest) i (rx, flds, knds) =
               compile_loop lib delim rest (Suc i)
                 (rx @ delim @ fragment lib ft, flds @ [i], knds @ [TypeKind ft])"
        by (simp add: typeParser_zero_Value)
      from sup have "\<not> unsupported_field lib ft"
        by (simp add: unsupported_field_def)
      with True show ?thesis
        unfolding step Cons.IH shifted_indices_Cons recognized_fields_Cons
        by (simp split: option.splits)
    qed
  qed
qed

lemma CompileWithDelimiter_eq:
  assumes "struct_shape structure fs"
  shows "CompileWithDelimiter lib structure delim =
     (case find (unsupported_field lib) fs of
        Some ft \<Rightarrow> Returns (Inl (FailedToUseField (Name ft) ErrUnsupportedKind))
      | None \<Rightarrow>
          (case regexp_Compile lib (composite lib delim fs) of
             Inl err \<Rightarrow> Returns (Inl (FailedToCompileRegex err))
           | Inr r \<Rightarrow>
               if NumSubexp lib r \<noteq> length (recognized_fields lib fs)
               then Returns (Inl MismatchFieldCount)
               else Returns (Inr \<lparr>regex = r, indices = recognized_indices lib fs,
                                   kinds = map TypeKind (recognized_fields lib fs),
                                   vtype = StructType fs\<rparr>)))"
proof -
  have loop: "compile_loop lib delim fs 0 (''(?mU)'', [], []) =
     (case find (unsupported_field lib) fs of
        Some ft \<Rightarrow> Returns (Inl (FailedToUseField (Name ft) ErrUnsupportedKind))
      | None \<Rightarrow> Returns (Inr (composite lib delim fs, recognized_indices lib fs,
                             map TypeKind (recognized_fields lib fs))))"
    unfolding compile_loop_eq composite_def by (simp add: map_add_0 split: option.splits)
  from assms show ?thesis
    unfolding struct_shape_def CompileWithDelimiter_def
    by (auto simp: loop length_recognized_indices split: option.splits sum.splits)
qed

subsection \<open>The loop of Unmarshal\<close>

lemma Field_put_Field_other:
  "j \<noteq> j' \<Longrightarrow> Field (put_Field d j' f) j = Field d j"
  by (cases d) (simp_all add: Field_def put_Field_def)

lemma unmarshal_loop_untouched:
  "unmarshal_loop lib ks s i js d = (out, d') \<Longrightarrow> j \<notin> set js \<Longrightarrow> Field d' j = Field d j"
proof (induction js arbitrary: i d)
  case Nil
  then show ?case by simp
next
  case (Cons j' js)
  from Cons.prems(2) have ne: "j \<noteq> j'" and notin: "j \<notin> set js" by simp_all
  show ?case
  proof (cases "length ks \<le> i \<or> length s \<le> i + 1")
    case True
    with Cons.prems(1) show ?thesis by simp
  next
    case False
    show ?thesis
    proof (cases "Field d j'")
      case Panics
      with False Cons.prems(1) show ?thesis by simp
    next
      case (Returns f)
      show ?thesis
      proof (cases "typeParser lib (ks ! i) (s ! (i + 1)) f")
        case Panics
        with False Returns Cons.prems(1) show ?thesis by simp
      next
        case tp: (Returns r)
        obtain err f' where r: "r = (err, f')" by (cases r)
        show ?thesis
        proof (cases err)
          case None
          with False Returns tp r Cons.prems(1)
          have "unmarshal_loop lib ks s (Suc i) js (put_Field d j' f') = (out, d')" by simp
          from Cons.IH [OF this notin] ne show ?thesis
            by (simp add: Field_put_Field_other)
        next
          case (Some e)
          with False Returns tp r Cons.prems(1) have "d' = put_Field d j' f'" by simp
          with ne show ?thesis by (simp add: Field_put_Field_other)
        qed
      qed
    qed
  qed
qed

lemma unmarshal_loop_shape:
  "unmarshal_loop lib ks s i js (PtrToStruct vs) = (out, d') \<Longrightarrow>
   \<exists>vs'. d' = PtrToStruct vs' \<and> length vs' = length vs"
proof (induction js arbitrary: i vs)
  case Nil
  then show ?case by auto
next
  case (Cons j' js)
  show ?case
  proof (cases "length ks \<le> i \<or> length s \<le> i + 1")
    case True
    with Cons.prems(1) show ?thesis by auto
  next
    case False
    show ?thesis
    proof (cases "Field (PtrToStruct vs) j'")
      case Panics
      with False Cons.prems(1) show ?thesis by auto
    next
      case (Returns f)
      show ?thesis
      proof (cases "typeParser lib (ks ! i) (s ! (i + 1)) f")
        case Panics
        with False Returns Cons.prems(1) show ?thesis by auto
      next
        case tp: (Returns r)
        obtain err f' where r: "r = (err, f')" by (cases r)
        show ?thesis
        proof (cases err)
          case None
          with False Returns tp r Cons.prems(1)
          have "unmarshal_loop lib ks s (Suc i) js (PtrToStruct (vs[j' := f'])) = (out, d')"
            by (auto simp: put_Field_def)
          from Cons.IH [OF this] show ?thesis by auto
        next
          case (Some e)
          with False Returns tp r Cons.prems(1) show ?thesis by (auto simp: put_Field_def)
        qed
      qed
    qed
  qed
qed

lemma Unmarshal_untouched:
  assumes "Unmarshal lib m data dest = (out, dest')" and "j \<notin> set (indices m)"
  shows "Field dest' j = Field dest j"
proof (cases "FindStringSubmatch lib (regex m) data")
  case None
  with assms show ?thesis by (simp add: Unmarshal_def)
next
  case (Some s)
  show ?thesis
  proof (cases "Elem_panics dest")
    case True
    with Some assms show ?thesis by (simp add: Unmarshal_def)
  next
    case False
    with Some assms have "unmarshal_loop lib (kinds m) s 0 (indices m) dest = (out, dest')"
      by (simp add: Unmarshal_def)
    from unmarshal_loop_untouched [OF this assms(2)] show ?thesis .
  qed
qed

text \<open>Nothing is written through fields that cannot be set.\<close>

lemma unmarshal_loop_cannot_set:
  assumes "\<forall>j \<in> set js. j < length vs \<and> \<not> CanSet (vs ! j)"
    and "\<forall>n < length js. supported (ks ! (i + n))"
    and "i + length js \<le> length ks" and "i + length js < length s"
  shows "unmarshal_loop lib ks s i js (PtrToStruct vs) = (Returns None, PtrToStruct vs)"
  using assms
proof (induction js arbitrary: i)
  case Nil
  show ?case by simp
next
  case (Cons j js)
  from Cons.prems(1) have j: "j < length vs" "\<not> CanSet (vs ! j)" by simp_all
  from Cons.prems(2) have sup: "supported (ks ! i)" by force
  have rest: "\<forall>n < length js. supported (ks ! (Suc i + n))"
    using Cons.prems(2) by force
  have "unmarshal_loop lib ks s (Suc i) js (PtrToStruct vs) = (Returns None, PtrToStruct vs)"
    using Cons.prems by (intro Cons.IH rest) simp_all
  with j sup Cons.prems(3,4) show ?case
    by (simp add: Field_def put_Field_def typeParser_cannot_set)
qed

subsection \<open>What a compiled matcher holds\<close>

lemma compiled_matcher:
  assumes "struct_shape structure fs"
    and "CompileWithDelimiter lib structure delim = Returns (Inr m)"
  shows "find (unsupported_field lib) fs = None"
    and "regexp_Compile lib (composite lib delim fs) = Inr (regex m)"
    and "NumSubexp lib (regex m) = length (recognized_fields lib fs)"
    and "indices m = recognized_indices lib fs"
    and "kinds m = map TypeKind (recognized_fields lib fs)"
    and "vtype m = StructType fs"
  using assms(2) unfolding CompileWithDelimiter_eq [OF assms(1)]
  by (auto split: option.splits sum.splits if_splits)

lemma compiled_kinds_supported:
  assumes "struct_shape structure fs"
    and "CompileWithDelimiter lib structure delim = Returns (Inr m)"
    and "n < length (kinds m)"
  shows "supported (kinds m ! n)"
proof -
  have "kinds m ! n \<in> TypeKind ` set (recognized_fields lib fs)"
    using assms(3) unfolding compiled_matcher(5) [OF assms(1,2)]
    by (metis length_map nth_mem set_map)
  moreover have "\<forall>ft \<in> set fs. \<not> unsupported_field lib ft"
    using compiled_matcher(1) [OF assms(1,2)] by (simp add: find_None_iff)
  ultimately show ?thesis
    by (auto simp: recognized_fields_def unsupported_field_def)
qed


subsection \<open>When compilation succeeds\<close>

text \<open>
  Claim C1.  For an argument of a struct type (or a pointer to one), compilation
  returns a matcher if and only if every recognized field (exported, fragment neither
  the dash nor empty) has a supported kind, the composite pattern compiles, and the
  compiled pattern has as many capturing groups as there are recognized fields.
  Otherwise it returns an error and no matcher; it never panics.
\<close>

theorem compile_succeeds_iff:
  assumes "struct_shape structure fs"
  shows "((\<exists>m. CompileWithDelimiter lib structure delim = Returns (Inr m)) \<longleftrightarrow>
            list_all (\<lambda>ft. supported (TypeKind ft)) (recognized_fields lib fs)
            \<and> (\<exists>r. regexp_Compile lib (composite lib delim fs) = Inr r
                   \<and> NumSubexp lib r = length (recognized_fields lib fs)))
         \<and> ((\<exists>m. CompileWithDelimiter lib structure delim = Returns (Inr m))
            \<or> (\<exists>e. CompileWithDelimiter lib structure delim = Returns (Inl e)))"
proof -
  have none: "find (unsupported_field lib) fs = None \<longleftrightarrow>
              list_all (\<lambda>ft. supported (TypeKind ft)) (recognized_fields lib fs)"
    by (auto simp: find_None_iff unsupported_field_def recognized_fields_def list_all_iff)
  show ?thesis
    unfolding CompileWithDelimiter_eq [OF assms] none [symmetric]
    by (auto split: option.splits sum.splits)
qed

subsection \<open>Compilation reads the type only\<close>

text \<open>
  Claim C10.  Compilation depends on the dereferenced type of its argument only, never
  on the value: two arguments of the same dynamic type give the same outcome whatever
  their values are, and so do two arguments whose types are the same struct type or a
  pointer to it (a struct value, a pointer to one, a nil pointer), compiled with the
  same delimiter.  The same outcome is the same error, or matchers with the same
  expression, the same index list, the same kind list and the same struct type.
\<close>

theorem compile_reads_type_only:
  "(CompileWithDelimiter lib (t, v1) delim = CompileWithDelimiter lib (t, v2) delim
    \<and> Compile lib (t, v1) = Compile lib (t, v2))
   \<and> (struct_shape s1 fs \<and> struct_shape s2 fs \<longrightarrow>
        CompileWithDelimiter lib s1 delim = CompileWithDelimiter lib s2 delim
        \<and> Compile lib s1 = Compile lib s2)"
proof (intro conjI impI)
  show "CompileWithDelimiter lib (t, v1) delim = CompileWithDelimiter lib (t, v2) delim"
    by (simp add: CompileWithDelimiter_def TypeOf_def)
  show "Compile lib (t, v1) = Compile lib (t, v2)"
    by (simp add: Compile_def CompileWithDelimiter_def TypeOf_def)
next
  assume sh: "struct_shape s1 fs \<and> struct_shape s2 fs"
  then have s1: "struct_shape s1 fs" and s2: "struct_shape s2 fs" by simp_all
  show "CompileWithDelimiter lib s1 delim = CompileWithDelimiter lib s2 delim"
    unfolding CompileWithDelimiter_eq [OF s1] CompileWithDelimiter_eq [OF s2] ..
  show "Compile lib s1 = Compile lib s2"
    unfolding Compile_def CompileWithDelimiter_eq [OF s1] CompileWithDelimiter_eq [OF s2] ..
qed

subsection \<open>Unmarshal: no match, unsettable fields, skipped fields\<close>

text \<open>
  Claim C9.  When the composite expression finds no match in the input, Unmarshal
  returns the error "No matches found" and the destination is exactly as supplied,
  for every matcher, input and destination.
\<close>

theorem no_match_writes_nothing:
  assumes "FindStringSubmatch lib (regex m) data = None"
  shows "Unmarshal lib m data dest = (Returns (Some NoMatchesFound), dest)"
  using assms by (simp add: Unmarshal_def)

text \<open>
  Claim C7, amended.  For a compiled matcher and an input on which the expression
  matches, Unmarshal into a pointer to a struct whose recognized fields cannot be set
  returns no error, whatever the captured substrings are, and leaves the destination as
  it was.
\<close>

theorem cannot_set_is_no_error:
  assumes "struct_shape structure fs"
    and "CompileWithDelimiter lib structure delim = Returns (Inr m)"
    and "FindStringSubmatch lib (regex m) data = Some s"
    and "length s = Suc (NumSubexp lib (regex m))"
    and "\<forall>j \<in> set (indices m). j < length vs \<and> \<not> CanSet (vs ! j)"
  shows "Unmarshal lib m data (PtrToStruct vs) = (Returns None, PtrToStruct vs)"
proof -
  note cm = compiled_matcher [OF assms(1,2)]
  have len: "length (indices m) = length (kinds m)" "length (indices m) = NumSubexp lib (regex m)"
    by (simp_all add: cm length_recognized_indices)
  have "unmarshal_loop lib (kinds m) s 0 (indices m) (PtrToStruct vs) =
          (Returns None, PtrToStruct vs)"
  proof (rule unmarshal_loop_cannot_set [OF assms(5)])
    show "\<forall>n<length (indices m). supported (kinds m ! (0 + n))"
      using compiled_kinds_supported [OF assms(1,2)] len by simp
  qed (use len assms(4) in simp_all)
  with assms(3) show ?thesis by (simp add: Unmarshal_def Elem_panics_def)
qed

lemma recognized_fields_without:
  assumes "j < length fs" and "skipped lib (fs ! j)"
  shows "recognized_fields lib (take j fs @ drop (Suc j) fs) = recognized_fields lib fs"
proof -
  have "fs = take j fs @ fs ! j # drop (Suc j) fs"
    using assms(1) by (rule id_take_nth_drop)
  then have "recognized_fields lib fs =
             recognized_fields lib (take j fs @ fs ! j # drop (Suc j) fs)" by simp
  also have "\<dots> = recognized_fields lib (take j fs @ drop (Suc j) fs)"
    using assms(2) by (simp add: recognized_fields_def recognized_def)
  finally show ?thesis by simp
qed

text \<open>
  Claim C6.  A field that is unexported, or whose fragment is the lone dash or empty,
  contributes nothing to the composite pattern (the expression of the matcher is the
  one compiled from the shape without that field), is not among the indices of the
  matcher, and is never written by Unmarshal.
\<close>

theorem skipped_field_is_ignored:
  assumes "struct_shape structure fs"
    and "j < length fs"
    and "PkgPath (fs ! j) \<noteq> [] \<or> fragment lib (fs ! j) = ''-'' \<or> fragment lib (fs ! j) = []"
    and "CompileWithDelimiter lib structure delim = Returns (Inr m)"
    and "Unmarshal lib m data dest = (out, dest')"
  shows "regexp_Compile lib (composite lib delim (take j fs @ drop (Suc j) fs)) = Inr (regex m)
         \<and> j \<notin> set (indices m)
         \<and> Field dest' j = Field dest j"
proof -
  from assms(3) have sk: "skipped lib (fs ! j)" by (simp add: skipped_def)
  note cm = compiled_matcher [OF assms(1,4)]
  have "composite lib delim (take j fs @ drop (Suc j) fs) = composite lib delim fs"
    by (simp add: composite_def recognized_fields_without [OF assms(2) sk])
  with cm(2) have a: "regexp_Compile lib (composite lib delim (take j fs @ drop (Suc j) fs)) =
                      Inr (regex m)" by simp
  have b: "j \<notin> set (indices m)"
    using sk by (simp add: cm(4) recognized_indices_def recognized_def)
  from a b Unmarshal_untouched [OF assms(5) b] show ?thesis by simp
qed

text \<open>
  Claim C5, amended.  When the first recognized field (exported, fragment neither the
  dash nor empty) of unsupported kind is the field \<open>j\<close>, compilation fails with the
  error that names it.  A field that is skipped is never examined: when every field is
  skipped or of a supported kind, compilation does not fail with such an error.
\<close>

theorem unsupported_kind_fails:
  assumes "struct_shape structure fs"
  shows "(j < length fs \<and> recognized lib (fs ! j) \<and> \<not> supported (TypeKind (fs ! j))
          \<and> (\<forall>i < j. recognized lib (fs ! i) \<longrightarrow> supported (TypeKind (fs ! i)))
          \<longrightarrow> CompileWithDelimiter lib structure delim =
                Returns (Inl (FailedToUseField (Name (fs ! j)) ErrUnsupportedKind)))
         \<and> (list_all (\<lambda>ft. skipped lib ft \<or> supported (TypeKind ft)) fs
          \<longrightarrow> (\<forall>n e. CompileWithDelimiter lib structure delim \<noteq>
                        Returns (Inl (FailedToUseField n e))))"
proof (intro conjI impI)
  assume h: "j < length fs \<and> recognized lib (fs ! j) \<and> \<not> supported (TypeKind (fs ! j))
          \<and> (\<forall>i < j. recognized lib (fs ! i) \<longrightarrow> supported (TypeKind (fs ! i)))"
  then have "find (unsupported_field lib) fs = Some (fs ! j)"
    unfolding find_Some_iff unsupported_field_def by blast
  then show "CompileWithDelimiter lib structure delim =
                Returns (Inl (FailedToUseField (Name (fs ! j)) ErrUnsupportedKind))"
    unfolding CompileWithDelimiter_eq [OF assms] by simp
next
  assume "list_all (\<lambda>ft. skipped lib ft \<or> supported (TypeKind ft)) fs"
  then have "find (unsupported_field lib) fs = None"
    by (auto simp: find_None_iff unsupported_field_def recognized_def list_all_iff)
  then show "\<forall>n e. CompileWithDelimiter lib structure delim \<noteq>
                        Returns (Inl (FailedToUseField n e))"
    unfolding CompileWithDelimiter_eq [OF assms]
    by (auto split: sum.splits)
qed

text \<open>
  Claim C3, amended.  The expression of every compiled matcher is compiled from a
  pattern that begins with the flag group \<^verbatim>\<open>(?mU)\<close>; read by the engine, the group
  turns on the multi-line and the ungreedy flag and leaves case folding (and the
  dot-matches-newline flag) off.
\<close>

theorem compiled_in_mode_mU:
  assumes "struct_shape structure fs"
    and "CompileWithDelimiter lib structure delim = Returns (Inr m)"
  shows "regexp_Compile lib
           (''(?mU)'' @ concat (map (\<lambda>ft. delim @ fragment lib ft) (recognized_fields lib fs)))
         = Inr (regex m)
         \<and> parse_chars initial ''(?mU)'' =
             Inr (initial\<lparr>fl := \<lparr>foldCase = False, multiLine = True, dotNL = False,
                                 unGreedy = True\<rparr>\<rparr>)"
proof -
  have "parse_chars initial ''(?mU)'' =
             Inr (initial\<lparr>fl := \<lparr>foldCase = False, multiLine = True, dotNL = False,
                                 unGreedy = True\<rparr>\<rparr>)"
    by (simp add: rx_defs)
  with compiled_matcher(2) [OF assms] show ?thesis
    by (simp add: composite_def)
qed

subsection \<open>Unmarshal: the first conversion failure\<close>







subsection \<open>Integers\<close>

lemma digit_of_digit:
  "is_digit c \<Longrightarrow> digit_of c = Some (of_char c - 48) \<and> (of_char c :: nat) - 48 < 10"
  by (auto simp: is_digit_def digit_of_def Let_def)

lemma digit_of_other:
  "\<not> is_digit c \<Longrightarrow> digit_of c = None \<or> (\<exists>d. digit_of c = Some d \<and> 10 \<le> d)"
  by (auto simp: is_digit_def digit_of_def Let_def)

lemma foldl_digits:
  "foldl (\<lambda>n c. 10 * n + (of_char c - 48)) a cs =
     a * 10 ^ length cs + foldl (\<lambda>n c. 10 * n + (of_char c - 48)) (0::nat) cs"
proof -
  define f where "f = (\<lambda>(n::nat) (c::char). 10 * n + (of_char c - 48))"
  have "foldl f a cs = a * 10 ^ length cs + foldl f 0 cs"
  proof (induction cs arbitrary: a)
    case Nil
    show ?case by simp
  next
    case (Cons c cs)
    have "foldl f a (c # cs) = foldl f (f a c) cs" by simp
    also have "\<dots> = f a c * 10 ^ length cs + foldl f 0 cs" by (rule Cons.IH)
    also have "f a c = a * 10 + f 0 c" by (simp add: f_def)
    also have "(a * 10 + f 0 c) * 10 ^ length cs + foldl f 0 cs =
               a * 10 ^ length (c # cs) + (f 0 c * 10 ^ length cs + foldl f 0 cs)"
      by (simp add: algebra_simps)
    also have "f 0 c * 10 ^ length cs + foldl f 0 cs = foldl f (f 0 c) cs"
      by (rule Cons.IH [symmetric])
    also have "\<dots> = foldl f 0 (c # cs)" by simp
    finally show ?case .
  qed
  then show ?thesis by (simp add: f_def)
qed

lemma digits_value_Cons:
  "digits_value (c # cs) = (of_char c - 48) * 10 ^ length cs + digits_value cs"
  unfolding digits_value_def by (simp add: foldl_digits [of "of_char c - 48"])

lemma cutoff10_le: "cutoff10 \<le> n \<longleftrightarrow> 1844674407370955162 \<le> unat n"
  by (simp add: cutoff10_def word_le_nat_alt)

lemma times10: "unat n < 1844674407370955162 \<Longrightarrow> unat (n * 10 :: 64 word) = unat n * 10"
proof -
  assume "unat n < 1844674407370955162"
  then have "unat n * unat (10 :: 64 word) < 2 ^ LENGTH(64)" by simp
  then have "unat (n * 10) = unat n * unat (10 :: 64 word)"
    by (simp only: unat_mult_lem)
  then show ?thesis by simp
qed

lemma plus_digit:
  assumes "d < 10"
  shows "(m + of_nat d < (m :: 64 word)) \<longleftrightarrow> 2 ^ 64 \<le> unat m + d"
    and "\<not> m + of_nat d < m \<Longrightarrow> unat (m + of_nat d) = unat m + d"
proof -
  have d: "unat (of_nat d :: 64 word) = d"
    using assms by (simp add: unat_of_nat)
  have "m \<le> m + of_nat d \<longleftrightarrow> unat m + d < 2 ^ 64"
    using no_olen_add_nat [of m "of_nat d"] d by simp
  then show "(m + of_nat d < m) \<longleftrightarrow> 2 ^ 64 \<le> unat m + d"
    by (simp add: not_le [symmetric])
  assume "\<not> m + of_nat d < m"
  then have "unat m + unat (of_nat d :: 64 word) < 2 ^ LENGTH(64)"
    using \<open>m \<le> m + of_nat d \<longleftrightarrow> unat m + d < 2 ^ 64\<close> d by (simp add: not_less)
  then have "unat (m + of_nat d) = unat m + unat (of_nat d :: 64 word)"
    by (rule unat_add_lem [THEN iffD1])
  with d show "unat (m + of_nat d) = unat m + d" by simp
qed

lemma not_above_maxVal64: "\<not> maxVal64 < (n :: 64 word)"
proof -
  have "unat n < 2 ^ LENGTH(64)" by (rule unsigned_less)
  then show ?thesis
    by (simp add: maxVal64_def word_less_nat_alt not_less)
qed

lemma ParseUint_loop_spec:
  "(snd (ParseUint_loop s0 cs n) = None \<longleftrightarrow>
      list_all is_digit cs \<and> unat n * 10 ^ length cs + digits_value cs < 2 ^ 64)
   \<and> (snd (ParseUint_loop s0 cs n) = None \<longrightarrow>
      unat (fst (ParseUint_loop s0 cs n)) = unat n * 10 ^ length cs + digits_value cs)"
proof (induction cs arbitrary: n)
  case Nil
  have "unat n < 2 ^ LENGTH(64)" by (rule unsigned_less)
  then show ?case by (simp add: digits_value_def)
next
  case (Cons c cs)
  define X :: nat where "X = 10 ^ length cs"
  have X: "1 \<le> X" by (simp add: X_def)
  show ?case
  proof (cases "is_digit c")
    case False
    with digit_of_other [OF False] show ?thesis by auto
  next
    case True
    define d :: nat where "d = of_char c - 48"
    from digit_of_digit [OF True] have dig: "digit_of c = Some d" "d < 10"
      by (simp_all add: d_def)
    have val: "unat n * 10 ^ length (c # cs) + digits_value (c # cs) =
               (unat n * 10 + d) * X + digits_value cs"
      by (simp add: digits_value_Cons d_def X_def algebra_simps)
    show ?thesis
    proof (cases "cutoff10 \<le> n")
      case big: True
      then have "2 ^ 64 \<le> unat n * 10 + d" by (simp add: cutoff10_le)
      also have "\<dots> \<le> (unat n * 10 + d) * X" using X by simp
      finally have "\<not> (unat n * 10 + d) * X + digits_value cs < 2 ^ 64" by simp
      with big dig True show ?thesis unfolding val by simp
    next
      case small: False
      then have n10: "unat (n * 10) = unat n * 10"
        by (intro times10) (simp add: cutoff10_le)
      show ?thesis
      proof (cases "n * 10 + of_nat d < n * 10")
        case over: True
        then have "2 ^ 64 \<le> unat n * 10 + d"
          using plus_digit(1) [OF dig(2), of "n * 10"] n10 by simp
        also have "\<dots> \<le> (unat n * 10 + d) * X" using X by simp
        finally have "\<not> (unat n * 10 + d) * X + digits_value cs < 2 ^ 64" by simp
        with small over dig True show ?thesis unfolding val by (simp add: Let_def)
      next
        case fits: False
        then have n1: "unat (n * 10 + of_nat d) = unat n * 10 + d"
          using plus_digit(2) [OF dig(2), of "n * 10"] n10 by simp
        have "ParseUint_loop s0 (c # cs) n = ParseUint_loop s0 cs (n * 10 + of_nat d)"
          using small fits dig by (simp add: Let_def not_above_maxVal64)
        with Cons.IH [of "n * 10 + of_nat d"] True show ?thesis
          unfolding val n1 X_def by simp
      qed
    qed
  qed
qed

lemma ParseUint_spec:
  "(snd (ParseUint s) = None \<longleftrightarrow> uint64_text s)
   \<and> (snd (ParseUint s) = None \<longrightarrow> unat (fst (ParseUint s)) = digits_value s)"
  using ParseUint_loop_spec [of s s 0]
  by (simp add: ParseUint_def uint64_text_def decimal_digits_def)

lemma ParseUint_loop_range:
  "snd (ParseUint_loop s0 cs n) = Some (NumError f x ErrRange) \<Longrightarrow>
   fst (ParseUint_loop s0 cs n) = maxVal64"
  by (induction cs arbitrary: n) (auto simp: Let_def split: option.splits if_splits)

lemma ParseUint_range:
  "snd (ParseUint s) = Some (NumError f x ErrRange) \<Longrightarrow> fst (ParseUint s) = maxVal64"
  using ParseUint_loop_range [of s s 0 f x] by (simp add: ParseUint_def split: if_splits)

lemma signed_take_bit_63_self:
  fixes k :: int
  assumes "- (2 ^ 63) \<le> k" and "k < 2 ^ 63"
  shows "signed_take_bit 63 k = k"
  using assms by (rule signed_take_bit_int_eq_self)

lemma sint_small: "unat (w::64 word) < 2^63 \<Longrightarrow> sint w = int (unat w)"
proof -
  assume a: "unat w < 2^63"
  define k where "k = int (unat w)"
  have u: "uint w = k" unfolding k_def by (rule uint_nat)
  have "k < int (2 ^ 63)" unfolding k_def using a by (simp only: of_nat_less_iff)
  then have "k < 2 ^ 63" by (simp only: of_nat_power of_nat_numeral)
  moreover have "0 \<le> k" unfolding k_def by simp
  then have "- (2 ^ 63) \<le> k" by simp
  ultimately have "signed_take_bit 63 k = k"
    by (intro signed_take_bit_63_self)
  moreover have "sint w = signed_take_bit 63 (uint w)"
    using sint_uint [of w] by simp
  ultimately show ?thesis unfolding u k_def [symmetric] by simp
qed

lemma sint_neg: "unat (w :: 64 word) \<le> 2^63 \<Longrightarrow> sint (- w) = - int (unat w)"
proof -
  assume a: "unat w \<le> 2^63"
  define k where "k = int (unat w)"
  have u: "uint w = k" unfolding k_def by (rule uint_nat)
  have "- w = word_of_int (- uint w)" by simp
  then have "sint (- w) = sint (word_of_int (- uint w) :: 64 word)" by (rule arg_cong)
  also have "\<dots> = signed_take_bit 63 (- uint w)"
    using sint_sbintrunc' [where 'a = 64, of "- uint w"] by simp
  finally have s: "sint (- w) = signed_take_bit 63 (- k)" by (simp only: u)
  have "k \<le> int (2 ^ 63)" unfolding k_def using a by (simp only: of_nat_le_iff)
  then have "k \<le> 2 ^ 63" by (simp only: of_nat_power of_nat_numeral)
  then have 1: "- (2 ^ 63) \<le> - k" by simp
  have "0 \<le> k" unfolding k_def by simp
  then have 2: "- k < 2 ^ 63" by simp
  from 1 2 have "signed_take_bit 63 (- k) = - k" by (rule signed_take_bit_63_self)
  with s show ?thesis unfolding k_def by simp
qed


lemma cutoff63_le: "cutoff63 \<le> n \<longleftrightarrow> 2 ^ 63 \<le> unat n"
  by (simp add: cutoff63_def word_le_nat_alt)

lemma cutoff63_less: "cutoff63 < n \<longleftrightarrow> 2 ^ 63 < unat n"
  by (simp add: cutoff63_def word_less_nat_alt)

lemma maxVal64_big: "cutoff63 \<le> maxVal64" "cutoff63 < maxVal64"
  by (simp_all add: cutoff63_def maxVal64_def word_le_nat_alt word_less_nat_alt)

lemma uint64_text_if_int64:
  "decimal_digits ds \<Longrightarrow> digits_value ds \<le> 2 ^ 63 \<Longrightarrow> uint64_text ds"
proof -
  assume d: "decimal_digits ds" and v: "digits_value ds \<le> 2 ^ 63"
  have "(2::nat) ^ 63 < 2 ^ 64" by simp
  with v have "digits_value ds < 2 ^ 64" by (rule le_less_trans)
  with d show ?thesis by (simp add: uint64_text_def)
qed

lemma ParseInt_spec:
  "(snd (ParseInt s) = None \<longleftrightarrow> int64_text s)
   \<and> (snd (ParseInt s) = None \<longrightarrow> sint (fst (ParseInt s)) = int64_value s)"
proof (cases s)
  case Nil
  then show ?thesis
    by (simp add: ParseInt_def int64_text_def read_sign_def decimal_digits_def)
next
  case (Cons c cs)
  define neg where "neg = (c = CHR ''-'')"
  define ds where "ds = (if c = CHR ''+'' \<or> c = CHR ''-'' then cs else s)"
  have rs: "read_sign s = (neg, ds)"
    using Cons by (auto simp: read_sign_def neg_def ds_def)
  obtain un err where pu: "ParseUint ds = (un, err)" by (cases "ParseUint ds")
  have PI: "ParseInt s =
     (case (un, err) of
        (un, Some (NumError f n ErrSyntax)) \<Rightarrow> (0, Some (NumError ''ParseInt'' s ErrSyntax))
      | (un, _) \<Rightarrow>
          if \<not> neg \<and> un \<ge> cutoff63
          then (cutoff63 - 1, Some (NumError ''ParseInt'' s ErrRange))
          else if neg \<and> un > cutoff63
          then (- cutoff63, Some (NumError ''ParseInt'' s ErrRange))
          else (if neg then - un else un, None))"
  proof -
    from Cons have ne: "(s = []) = False" by simp
    from Cons have n: "(hd s = CHR ''-'') = neg" by (simp add: neg_def)
    from Cons have d: "(if hd s = CHR ''+'' \<or> neg then tl s else s) = ds"
      by (simp add: ds_def neg_def)
    show ?thesis
      unfolding ParseInt_def Let_def n d ne pu by (simp only: if_False)
  qed
  have itext: "int64_text s \<longleftrightarrow>
       decimal_digits ds \<and> (if neg then digits_value ds \<le> 2 ^ 63 else digits_value ds < 2 ^ 63)"
    by (simp add: int64_text_def rs)
  have ival: "int64_value s = (if neg then - int (digits_value ds) else int (digits_value ds))"
    by (simp add: int64_value_def rs)
  note spec = ParseUint_spec [of ds, unfolded pu, simplified]
  show ?thesis
  proof (cases err)
    case None
    with spec have u: "uint64_text ds" "unat un = digits_value ds" by simp_all
    then have dd: "decimal_digits ds" by (simp add: uint64_text_def)
    show ?thesis
    proof (cases neg)
      case True
      show ?thesis
      proof (cases "cutoff63 < un")
        case over: True
        with True None PI itext u show ?thesis by (simp add: cutoff63_less)
      next
        case fits: False
        then have le: "unat un \<le> 2 ^ 63" by (simp add: cutoff63_less)
        from sint_neg [OF le] fits True None PI itext ival u dd show ?thesis
          by (simp add: cutoff63_less)
      qed
    next
      case False
      show ?thesis
      proof (cases "cutoff63 \<le> un")
        case over: True
        with False None PI itext u show ?thesis by (simp add: cutoff63_le)
      next
        case fits: False
        then have less: "unat un < 2 ^ 63" by (simp add: cutoff63_le)
        from sint_small [OF less] fits False None PI itext ival u dd show ?thesis
          by (simp add: cutoff63_le)
      qed
    qed
  next
    case (Some e)
    with spec have nu: "\<not> uint64_text ds" by simp
    then have nt: "\<not> int64_text s"
      unfolding itext using uint64_text_if_int64 [of ds] by (auto split: if_splits)
    obtain f x k where e: "e = NumError f x k" by (cases e)
    show ?thesis
    proof (cases k)
      case ErrSyntax
      with Some e PI nt show ?thesis by simp
    next
      case ErrRange
      with Some e pu ParseUint_range [of ds f x] have "un = maxVal64" by simp
      with Some e ErrRange PI nt maxVal64_big show ?thesis by simp
    qed
  qed
qed

lemma sint_ucast_fits:
  fixes w :: "64 word"
  assumes "LENGTH('c::len) \<le> 64"
    and "- (2 ^ (LENGTH('c) - 1)) \<le> sint w" and "sint w < 2 ^ (LENGTH('c) - 1)"
  shows "sint (ucast w :: 'c word) = sint w"
proof -
  have "sint (ucast w :: 'c word) = signed_take_bit (LENGTH('c) - 1) (uint w)"
    using signed_ucast_eq [of w, where 'c = 'c and 'a = int] by simp
  also have "\<dots> = signed_take_bit (LENGTH('c) - 1) (signed_take_bit (LENGTH(64) - 1) (uint w))"
  proof -
    have "LENGTH('c) - Suc 0 \<le> 63" using assms(1) by simp
    then show ?thesis by (simp add: signed_take_bit_signed_take_bit min_def)
  qed
  also have "signed_take_bit (LENGTH(64) - 1) (uint w) = sint w"
    using sint_uint [of w] by simp
  also have "signed_take_bit (LENGTH('c) - 1) (sint w) = sint w"
    using assms(2,3) by (rule signed_take_bit_int_eq_self)
  finally show ?thesis .
qed

lemma unat_ucast_fits:
  fixes w :: "64 word"
  assumes "unat w < 2 ^ LENGTH('c::len)"
  shows "unat (ucast w :: 'c word) = unat w"
proof -
  have "unat (ucast w :: 'c word) = take_bit LENGTH('c) (unat w)"
    by (rule unsigned_ucast_eq)
  also have "\<dots> = unat w"
    using assms by (simp add: take_bit_nat_eq_self_iff)
  finally show ?thesis .
qed

lemma SetInt_result:
  assumes "CanSet v" and "signed_kind (kind v)"
  shows "\<exists>c. SetInt v x = Returns (v\<lparr>holds := IntOf c\<rparr>)
             \<and> (- (2 ^ (width (kind v) - 1)) \<le> sint x \<and> sint x < 2 ^ (width (kind v) - 1)
                  \<longrightarrow> c = sint x)"
proof -
  consider "kind v = KInt \<or> kind v = KInt64" | "kind v = KInt8" | "kind v = KInt16"
    | "kind v = KInt32"
    using assms(2) by (auto simp: signed_kind_def)
  then show ?thesis
  proof cases
    case 1
    with assms(1) show ?thesis by (auto simp: SetInt_def store_def)
  next
    case 2
    have "- (2 ^ 7) \<le> sint x \<Longrightarrow> sint x < 2 ^ 7 \<Longrightarrow> sint (ucast x :: 8 word) = sint x"
      using sint_ucast_fits [of x, where 'c = 8] by simp
    with 2 assms(1) show ?thesis by (auto simp: SetInt_def store_def width_def)
  next
    case 3
    have "- (2 ^ 15) \<le> sint x \<Longrightarrow> sint x < 2 ^ 15 \<Longrightarrow> sint (ucast x :: 16 word) = sint x"
      using sint_ucast_fits [of x, where 'c = 16] by simp
    with 3 assms(1) show ?thesis by (auto simp: SetInt_def store_def width_def)
  next
    case 4
    have "- (2 ^ 31) \<le> sint x \<Longrightarrow> sint x < 2 ^ 31 \<Longrightarrow> sint (ucast x :: 32 word) = sint x"
      using sint_ucast_fits [of x, where 'c = 32] by simp
    with 4 assms(1) show ?thesis by (auto simp: SetInt_def store_def width_def)
  qed
qed

lemma SetUint_result:
  assumes "CanSet v" and "unsigned_kind (kind v)"
  shows "\<exists>c. SetUint v x = Returns (v\<lparr>holds := UintOf c\<rparr>)
             \<and> (unat x < 2 ^ width (kind v) \<longrightarrow> c = unat x)"
proof -
  consider "kind v = KUint \<or> kind v = KUint64" | "kind v = KUint8" | "kind v = KUint16"
    | "kind v = KUint32"
    using assms(2) by (auto simp: unsigned_kind_def)
  then show ?thesis
  proof cases
    case 1
    with assms(1) show ?thesis by (auto simp: SetUint_def store_def)
  next
    case 2
    have "unat x < 2 ^ 8 \<Longrightarrow> unat (ucast x :: 8 word) = unat x"
      using unat_ucast_fits [of x, where 'c = 8] by simp
    with 2 assms(1) show ?thesis by (auto simp: SetUint_def store_def width_def)
  next
    case 3
    have "unat x < 2 ^ 16 \<Longrightarrow> unat (ucast x :: 16 word) = unat x"
      using unat_ucast_fits [of x, where 'c = 16] by simp
    with 3 assms(1) show ?thesis by (auto simp: SetUint_def store_def width_def)
  next
    case 4
    have "unat x < 2 ^ 32 \<Longrightarrow> unat (ucast x :: 32 word) = unat x"
      using unat_ucast_fits [of x, where 'c = 32] by simp
    with 4 assms(1) show ?thesis by (auto simp: SetUint_def store_def width_def)
  qed
qed

lemma typeParser_signed:
  assumes "signed_kind k"
  shows "typeParser lib k input v =
     (if \<not> CanSet v then Returns (None, v)
      else case ParseInt input of
             (i, Some err) \<Rightarrow> Returns (Some (StrconvError err), v)
           | (i, None) \<Rightarrow> after_set (SetInt v i))"
  using assms by (auto simp: signed_kind_def typeParser_def)

lemma typeParser_unsigned:
  assumes "unsigned_kind k"
  shows "typeParser lib k input v =
     (if \<not> CanSet v then Returns (None, v)
      else case ParseUint input of
             (u, Some err) \<Rightarrow> Returns (Some (StrconvError err), v)
           | (u, None) \<Rightarrow> after_set (SetUint v u))"
  using assms by (auto simp: unsigned_kind_def typeParser_def)

text \<open>
  Claim C4, amended.  A settable field of a signed or unsigned integer kind is parsed
  as base-10 text in the 64-bit range, whatever the declared width of the field: text
  that is not an optionally signed (for unsigned: unsigned) run of digits, or whose
  value is outside the 64-bit range, is a conversion failure, and so is text with a
  leading minus for an unsigned field; any other text is accepted without error, and
  when the value fits the declared width the field holds it.
\<close>

theorem integers_parse_in_64_bits:
  assumes "CanSet v" and "kind v = k"
  shows "(signed_kind k \<longrightarrow>
            (if int64_text input
             then \<exists>c. typeParser lib k input v = Returns (None, v\<lparr>holds := IntOf c\<rparr>)
                      \<and> (- (2 ^ (width k - 1)) \<le> int64_value input
                           \<and> int64_value input < 2 ^ (width k - 1)
                           \<longrightarrow> c = int64_value input)
             else \<exists>e. typeParser lib k input v = Returns (Some (StrconvError e), v)))
         \<and> (unsigned_kind k \<longrightarrow>
            (if uint64_text input
             then \<exists>c. typeParser lib k input v = Returns (None, v\<lparr>holds := UintOf c\<rparr>)
                      \<and> (digits_value input < 2 ^ width k \<longrightarrow> c = digits_value input)
             else \<exists>e. typeParser lib k input v = Returns (Some (StrconvError e), v)))
         \<and> (unsigned_kind k \<and> input \<noteq> [] \<and> hd input = CHR ''-'' \<longrightarrow>
            (\<exists>e. typeParser lib k input v = Returns (Some (StrconvError e), v)))"
proof (intro conjI impI)
  assume sk: "signed_kind k"
  obtain i err where pi: "ParseInt input = (i, err)" by (cases "ParseInt input")
  note spec = ParseInt_spec [of input, unfolded pi, simplified]
  show "if int64_text input
        then \<exists>c. typeParser lib k input v = Returns (None, v\<lparr>holds := IntOf c\<rparr>)
                 \<and> (- (2 ^ (width k - 1)) \<le> int64_value input
                      \<and> int64_value input < 2 ^ (width k - 1)
                      \<longrightarrow> c = int64_value input)
        else \<exists>e. typeParser lib k input v = Returns (Some (StrconvError e), v)"
  proof (cases "int64_text input")
    case True
    with spec have e: "err = None" and v: "sint i = int64_value input" by simp_all
    from SetInt_result [OF assms(1), of i] sk assms(2)
    obtain c where "SetInt v i = Returns (v\<lparr>holds := IntOf c\<rparr>)"
        "- (2 ^ (width k - 1)) \<le> sint i \<and> sint i < 2 ^ (width k - 1) \<longrightarrow> c = sint i"
      by auto
    with True e v pi assms(1) show ?thesis
      by (auto simp: typeParser_signed [OF sk] after_set_def)
  next
    case False
    with spec obtain e where "err = Some e" by auto
    with False pi assms(1) show ?thesis
      by (simp add: typeParser_signed [OF sk])
  qed
next
  assume uk: "unsigned_kind k"
  obtain u err where pu: "ParseUint input = (u, err)" by (cases "ParseUint input")
  note spec = ParseUint_spec [of input, unfolded pu, simplified]
  show "if uint64_text input
        then \<exists>c. typeParser lib k input v = Returns (None, v\<lparr>holds := UintOf c\<rparr>)
                 \<and> (digits_value input < 2 ^ width k \<longrightarrow> c = digits_value input)
        else \<exists>e. typeParser lib k input v = Returns (Some (StrconvError e), v)"
  proof (cases "uint64_text input")
    case True
    with spec have e: "err = None" and v: "unat u = digits_value input" by simp_all
    from SetUint_result [OF assms(1), of u] uk assms(2)
    obtain c where "SetUint v u = Returns (v\<lparr>holds := UintOf c\<rparr>)"
        "unat u < 2 ^ width k \<longrightarrow> c = unat u"
      by auto
    with True e v pu assms(1) show ?thesis
      by (auto simp: typeParser_unsigned [OF uk] after_set_def)
  next
    case False
    with spec obtain e where "err = Some e" by auto
    with False pu assms(1) show ?thesis
      by (simp add: typeParser_unsigned [OF uk])
  qed
next
  assume h: "unsigned_kind k \<and> input \<noteq> [] \<and> hd input = CHR ''-''"
  then have uk: "unsigned_kind k" by simp
  from h have "\<not> is_digit (hd input)" by (simp add: is_digit_def)
  with h have "\<not> list_all is_digit input" by (cases input) simp_all
  then have nu: "\<not> uint64_text input" by (simp add: uint64_text_def decimal_digits_def)
  obtain u err where pu: "ParseUint input = (u, err)" by (cases "ParseUint input")
  from ParseUint_spec [of input, unfolded pu, simplified] nu obtain e where "err = Some e"
    by auto
  with pu assms(1) show "\<exists>e. typeParser lib k input v = Returns (Some (StrconvError e), v)"
    by (simp add: typeParser_unsigned [OF uk])
qed

section \<open>The scenarios\<close>

subsection \<open>Evaluation of the scenarios\<close>

lemmas compile_defs = Compile_def CompileWithDelimiter_def TypeOf_def typeParser_def zero_Value_def
  default_delimiter_def
lemmas int_defs = ParseInt_def ParseUint_def digit_of_def cutoff10_def maxVal64_def cutoff63_def
  word_le_nat_alt word_less_nat_alt
lemmas set_defs = after_set_def SetBool_def SetInt_def SetUint_def SetFloat_def SetString_def
  store_def
lemmas unmarshal_defs = Unmarshal_def Elem_panics_def Field_def put_Field_def ParseBool_def

lemma ParseFloat64_339: "ParseFloat64 ''3.39'' = Inr (Finite False 7633601368392991 (- 51))"
  unfolding ParseFloat64_def
  apply (simp add: special_def lower_def read_sign_def read_digits_def read_fraction_def
      read_exponent_def is_digit_def digits_value_def)
  apply (simp add: decimal_to_float64_def round_to_def round_div_def Let_def bitlen.simps
      normal.simps)
  done

lemma round_to_339:
  "round_to 24 (- 149) 128 7633601368392991 2251799813685248 = Some (14218691, - 22)"
  by (simp add: round_to_def round_div_def Let_def bitlen.simps normal.simps)

lemma float32_339:
  "float32 (Finite False 7633601368392991 (- 51)) = Finite False 14218691 (- 22)"
  by (simp add: float32_def round_to_339)

lemma opusenc_compiled:
  "\<exists>m. Compile golib (pointer_to opusenc_shape) = Returns (Inr m)
       \<and> indices m = [0, 1, 2] \<and> kinds m = [KString, KUint64, KFloat32]
       \<and> FindStringSubmatch golib (regex m) opusenc_input =
           Some [opusenc_input, ''4'', ''3853633'', ''3.39'']"
  by (simp add: compile_defs opusenc_shape_def opusenc_input_def golib_simps tag_defs rx_defs)

text \<open>
  On the tests of the package the model captures what the tests expect: \<^verbatim>\<open>"4"\<close>
  for Encoded and for Runtime in \<^verbatim>\<open>TestMatch\<close>, and the five words of
  \<^verbatim>\<open>TestAllTypes\<close>.
\<close>

lemma test_compiled:
  "\<exists>m. Compile golib (pointer_to test_opusenc) = Returns (Inr m)
       \<and> indices m = [3, 4, 5, 7, 8, 9]
       \<and> kinds m = [KString, KString, KFloat32, KUint64, KFloat32, KFloat32]
       \<and> map_option tl (FindStringSubmatch golib (regex m) test_output) =
           Some [''4'', ''4'', ''67.91'', ''3853633'', ''109.64'', ''3.39'']"
  by (simp add: compile_defs test_opusenc_def test_output_def golib_simps tag_defs rx_defs)

lemma all_compiled:
  "\<exists>m. CompileWithDelimiter golib (pointer_to all_types) '' ?'' = Returns (Inr m)
       \<and> indices m = [0,1,2,3,4]
       \<and> FindStringSubmatch golib (regex m) ''true -0 42 420.69 test'' =
           Some [''true -0 42 420.69 test'', ''true'', ''-0'', ''42'', ''420.69'', ''test'']"
  by (simp add: compile_defs all_types_def golib_simps tag_defs rx_defs)

lemma opusenc_result:
  "compile_and_unmarshal golib (pointer_to opusenc_shape) opusenc_input (PtrToStruct opusenc_zero) =
     (Returns None,
      PtrToStruct [var KString (StringOf ''4''), var KUint64 (UintOf 3853633),
                   var KFloat32 (FloatOf (Finite False 14218691 (- 22)))])"
proof -
  from opusenc_compiled obtain m where m:
    "Compile golib (pointer_to opusenc_shape) = Returns (Inr m)"
    "indices m = [0, 1, 2]" "kinds m = [KString, KUint64, KFloat32]"
    "FindStringSubmatch golib (regex m) opusenc_input =
           Some [opusenc_input, ''4'', ''3853633'', ''3.39'']"
    by blast
  have pf: "ParseFloat golib ''3.39'' = Inr (Finite False 7633601368392991 (- 51))"
    by (simp add: golib_def ParseFloat64_339)
  have f32: "to_float32 golib (Finite False 7633601368392991 (- 51)) = Finite False 14218691 (- 22)"
    by (simp add: golib_def float32_339)
  have "Unmarshal golib m opusenc_input (PtrToStruct opusenc_zero) =
     (Returns None,
      PtrToStruct [var KString (StringOf ''4''), var KUint64 (UintOf 3853633),
                   var KFloat32 (FloatOf (Finite False 14218691 (- 22)))])"
    by (simp add: unmarshal_defs m opusenc_zero_def var_def typeParser_def set_defs int_defs
        pf f32)
  with m(1) show ?thesis by (simp add: compile_and_unmarshal_def)
qed

text \<open>
  Claim C8, amended.  For the shape with the fields Encoded (text, fragment
  \<^verbatim>\<open>Encoded: (.+)\<close>), WroteBytes (unsigned 64-bit, fragment \<^verbatim>\<open>Wrote: (\d+) bytes\<close>)
  and Overhead (32-bit float, fragment \<^verbatim>\<open>Overhead: (.+)% \(container\+metadata\)\<close>),
  compiled with the default delimiter, Unmarshal on the three lines succeeds and sets
  Encoded to \<^verbatim>\<open>"4"\<close> (the group is ungreedy and takes one character), WroteBytes to
  3853633 and Overhead to the float32 nearest to 3.39, which is
  \<open>14218691 * 2 ^ - 22\<close>.
\<close>

theorem opusenc_scenario:
  "compile_and_unmarshal golib (pointer_to opusenc_shape) opusenc_input (PtrToStruct opusenc_zero) =
     (Returns None,
      PtrToStruct [var KString (StringOf ''4''), var KUint64 (UintOf 3853633),
                   var KFloat32 (FloatOf (Finite False 14218691 (- 22)))])"
  by (rule opusenc_result)

text \<open>
  Claim C8 as stated fails: the destination does not hold \<^verbatim>\<open>"4 minutes"\<close> in
  Encoded.
\<close>

theorem opusenc_encoded_is_not_4_minutes:
  "compile_and_unmarshal golib (pointer_to opusenc_shape) opusenc_input (PtrToStruct opusenc_zero) \<noteq>
     (Returns None,
      PtrToStruct [var KString (StringOf ''4 minutes''), var KUint64 (UintOf 3853633),
                   var KFloat32 (FloatOf (Finite False 14218691 (- 22)))])"
  unfolding opusenc_result by (simp add: var_def)

lemma sample_is_struct: "struct_shape (pointer_to sample_shape) sample_shape"
  by (simp add: struct_shape_def TypeOf_def pointer_to_def)

lemma sample_compiled:
  "\<exists>m. CompileWithDelimiter golib (pointer_to sample_shape) '' ?'' = Returns (Inr m)
       \<and> indices m = [2, 4, 5] \<and> kinds m = [KInt8, KBool, KUint]
       \<and> NumSubexp golib (regex m) = 3
       \<and> FindStringSubmatch golib (regex m) sample_input =
           Some [sample_input, ''7'', ''maybe'', ''9'']
       \<and> FindStringSubmatch golib (regex m) ''a=7 b=true c=9'' =
           Some [''a=7 b=true c=9'', ''7'', ''true'', ''9'']
       \<and> FindStringSubmatch golib (regex m) ''nothing here'' = None"
  by (simp add: compile_defs sample_shape_def sample_input_def golib_simps tag_defs rx_defs)

text \<open>
  Claim C1 at the sample shape: its recognized fields have supported kinds and its
  composite pattern compiles with three groups, so compilation returns a matcher.
\<close>

theorem compile_succeeds_iff_witness:
  "struct_shape (pointer_to sample_shape) sample_shape
   \<and> (\<exists>m. CompileWithDelimiter golib (pointer_to sample_shape) '' ?'' = Returns (Inr m))"
proof -
  have k: "list_all (\<lambda>ft. supported (TypeKind ft)) (recognized_fields golib sample_shape)"
    unfolding sample_recognized
    by (simp add: sample_shape_def exported_def unexported_def supported_def)
  have r: "\<exists>r. regexp_Compile golib (composite golib '' ?'' sample_shape) = Inr r
              \<and> NumSubexp golib r = length (recognized_fields golib sample_shape)"
    unfolding composite_def sample_recognized
    by (simp add: sample_shape_def golib_simps tag_defs rx_defs)
  from compile_succeeds_iff [OF sample_is_struct, of golib "'' ?''"] k r
  have "\<exists>m. CompileWithDelimiter golib (pointer_to sample_shape) '' ?'' = Returns (Inr m)"
    by blast
  with sample_is_struct show ?thesis by simp
qed

text \<open>
  Claim C10 at the sample shape: a struct value with its fields, a pointer to a struct
  and a nil pointer compile to the same outcome, which is a matcher.
\<close>

theorem compile_reads_type_only_witness:
  "struct_shape (Some (StructType sample_shape), sample_vars) sample_shape
   \<and> struct_shape (Some (PtrType (StructType sample_shape)), Some sample_locked) sample_shape
   \<and> struct_shape (Some (PtrType (StructType sample_shape)), None :: float Value list option)
         sample_shape
   \<and> CompileWithDelimiter golib (Some (StructType sample_shape), sample_vars) '' ?''
       = CompileWithDelimiter golib (Some (PtrType (StructType sample_shape)), Some sample_locked)
           '' ?''
   \<and> CompileWithDelimiter golib (Some (StructType sample_shape), sample_vars) '' ?''
       = CompileWithDelimiter golib
           (Some (PtrType (StructType sample_shape)), None :: float Value list option) '' ?''
   \<and> (\<exists>m. CompileWithDelimiter golib (Some (StructType sample_shape), sample_vars) '' ?''
            = Returns (Inr m))"
proof -
  have a: "struct_shape (Some (StructType sample_shape), sample_vars) sample_shape"
    by (simp add: struct_shape_def TypeOf_def)
  have b: "struct_shape (Some (PtrType (StructType sample_shape)), Some sample_locked)
             sample_shape"
    by (simp add: struct_shape_def TypeOf_def)
  have c: "struct_shape (Some (PtrType (StructType sample_shape)),
             None :: float Value list option) sample_shape"
    by (simp add: struct_shape_def TypeOf_def)
  have d: "struct_shape (pointer_to sample_shape) sample_shape"
    by (rule sample_is_struct)
  note same = compile_reads_type_only [where lib = golib and delim = "'' ?''" and
      fs = sample_shape, THEN conjunct2, THEN mp, THEN conjunct1]
  from same [of "(Some (StructType sample_shape), sample_vars)"
      "(Some (PtrType (StructType sample_shape)), Some sample_locked)"] a b
  have e: "CompileWithDelimiter golib (Some (StructType sample_shape), sample_vars) '' ?''
       = CompileWithDelimiter golib (Some (PtrType (StructType sample_shape)), Some sample_locked)
           '' ?''"
    by simp
  from same [of "(Some (StructType sample_shape), sample_vars)"
      "(Some (PtrType (StructType sample_shape)), None :: float Value list option)"] a c
  have f: "CompileWithDelimiter golib (Some (StructType sample_shape), sample_vars) '' ?''
       = CompileWithDelimiter golib
           (Some (PtrType (StructType sample_shape)), None :: float Value list option) '' ?''"
    by simp
  from same [of "(Some (StructType sample_shape), sample_vars)" "pointer_to sample_shape"] a d
  have "CompileWithDelimiter golib (Some (StructType sample_shape), sample_vars) '' ?''
       = CompileWithDelimiter golib (pointer_to sample_shape) '' ?''"
    by simp
  with sample_compiled
  have g: "\<exists>m. CompileWithDelimiter golib (Some (StructType sample_shape), sample_vars) '' ?''
            = Returns (Inr m)"
    by auto
  from a b c e f g show ?thesis by simp
qed

text \<open>
  Claim C9 at the sample matcher and an input without any match.
\<close>

theorem no_match_writes_nothing_witness:
  "\<exists>m. CompileWithDelimiter golib (pointer_to sample_shape) '' ?'' = Returns (Inr m)
       \<and> FindStringSubmatch golib (regex m) ''nothing here'' = None
       \<and> Unmarshal golib m ''nothing here'' (PtrToStruct sample_vars) =
           (Returns (Some NoMatchesFound), PtrToStruct sample_vars)"
proof -
  from sample_compiled obtain m where m:
    "CompileWithDelimiter golib (pointer_to sample_shape) '' ?'' = Returns (Inr m)"
    "FindStringSubmatch golib (regex m) ''nothing here'' = None"
    by blast
  from no_match_writes_nothing [OF m(2), of "PtrToStruct sample_vars"] m show ?thesis by blast
qed

text \<open>
  Claim C7, amended, at the sample matcher, an input whose second capture is no
  boolean, and a pointer to a struct none of whose fields can be set.
\<close>

theorem cannot_set_is_no_error_witness:
  "\<exists>m. CompileWithDelimiter golib (pointer_to sample_shape) '' ?'' = Returns (Inr m)
       \<and> FindStringSubmatch golib (regex m) sample_input =
           Some [sample_input, ''7'', ''maybe'', ''9'']
       \<and> Unmarshal golib m sample_input (PtrToStruct sample_locked) =
           (Returns None, PtrToStruct sample_locked)"
proof -
  from sample_compiled obtain m where m:
    "CompileWithDelimiter golib (pointer_to sample_shape) '' ?'' = Returns (Inr m)"
    "indices m = [2, 4, 5]" "NumSubexp golib (regex m) = 3"
    "FindStringSubmatch golib (regex m) sample_input =
           Some [sample_input, ''7'', ''maybe'', ''9'']"
    by blast
  have len: "length [sample_input, ''7'', ''maybe'', ''9''] = Suc (NumSubexp golib (regex m))"
    by (simp add: m)
  have locked: "\<forall>j \<in> set (indices m). j < length sample_locked \<and> \<not> CanSet (sample_locked ! j)"
    by (simp add: m sample_locked_def locked_def)
  from cannot_set_is_no_error [OF sample_is_struct m(1) m(4) len locked] m show ?thesis by blast
qed

lemma sample_compiled_default:
  "\<exists>m. Compile golib (pointer_to sample_shape) = Returns (Inr m)
       \<and> indices m = [2, 4, 5] \<and> kinds m = [KInt8, KBool, KUint]
       \<and> FindStringSubmatch golib (regex m) sample_input =
           Some [sample_input, ''7'', ''m'', ''9'']"
  by (simp add: compile_defs sample_shape_def sample_input_def golib_simps tag_defs rx_defs)

text \<open>
  Claim C7 as stated fails: a struct passed by value is a destination whose fields
  cannot be set, and Unmarshal panics on it (in \<^verbatim>\<open>Elem\<close>), on an input that matches:
  the same input with a pointer to the locked struct returns no error.
\<close>

theorem struct_by_value_panics:
  "compile_and_unmarshal golib (pointer_to sample_shape) sample_input (StructValue sample_locked)
     = (Panics, StructValue sample_locked)
   \<and> compile_and_unmarshal golib (pointer_to sample_shape) sample_input (PtrToStruct sample_locked)
     = (Returns None, PtrToStruct sample_locked)"
proof -
  from sample_compiled_default obtain m where m:
    "Compile golib (pointer_to sample_shape) = Returns (Inr m)"
    "indices m = [2, 4, 5]" "kinds m = [KInt8, KBool, KUint]"
    "FindStringSubmatch golib (regex m) sample_input = Some [sample_input, ''7'', ''m'', ''9'']"
    by blast
  then show ?thesis
    by (simp add: compile_and_unmarshal_def unmarshal_defs sample_locked_def locked_def
        typeParser_def)
qed

text \<open>
  Claim C6 at the unexported field of the sample shape, which carries the fragment
  \<^verbatim>\<open>(x)\<close>.
\<close>

theorem skipped_field_is_ignored_witness:
  "\<exists>m out dest'. CompileWithDelimiter golib (pointer_to sample_shape) '' ?'' = Returns (Inr m)
       \<and> PkgPath (sample_shape ! 3) = ''sfmatch''
       \<and> Unmarshal golib m ''a=7 b=true c=9'' (PtrToStruct sample_vars) = (out, dest')
       \<and> regexp_Compile golib (composite golib '' ?'' (take 3 sample_shape @ drop 4 sample_shape))
           = Inr (regex m)
       \<and> 3 \<notin> set (indices m)
       \<and> Field dest' 3 = Field (PtrToStruct sample_vars) 3"
proof -
  from sample_compiled obtain m where m:
    "CompileWithDelimiter golib (pointer_to sample_shape) '' ?'' = Returns (Inr m)"
    by blast
  obtain out dest' where u:
    "Unmarshal golib m ''a=7 b=true c=9'' (PtrToStruct sample_vars) = (out, dest')"
    by (cases "Unmarshal golib m ''a=7 b=true c=9'' (PtrToStruct sample_vars)")
  have j: "3 < length sample_shape" by (simp add: sample_shape_def)
  have p: "PkgPath (sample_shape ! 3) = ''sfmatch''"
    by (simp add: sample_shape_def unexported_def)
  then have sk: "PkgPath (sample_shape ! 3) \<noteq> [] \<or> fragment golib (sample_shape ! 3) = ''-''
                 \<or> fragment golib (sample_shape ! 3) = []" by simp
  from skipped_field_is_ignored [OF sample_is_struct j sk m u] m u p show ?thesis
    by (simp add: numeral_3_eq_3 [symmetric])
qed

text \<open>
  Claim C5, amended, at a shape whose only field is a nested struct with a fragment
  (the shape of the test \<^verbatim>\<open>TestMatchFail\<close>).
\<close>

theorem unsupported_kind_fails_witness:
  "struct_shape (pointer_to fail1_shape) fail1_shape
   \<and> recognized golib (fail1_shape ! 0) \<and> \<not> supported (TypeKind (fail1_shape ! 0))
   \<and> CompileWithDelimiter golib (pointer_to fail1_shape) default_delimiter =
       Returns (Inl (FailedToUseField ''UnsupportedType'' ErrUnsupportedKind))"
proof -
  have sh: "struct_shape (pointer_to fail1_shape) fail1_shape"
    by (simp add: struct_shape_def TypeOf_def pointer_to_def)
  have r: "recognized golib (fail1_shape ! 0)"
    by (simp add: recognized_def skipped_def fail1_shape_def golib_simps tag_defs)
  have u: "\<not> supported (TypeKind (fail1_shape ! 0))"
    by (simp add: fail1_shape_def exported_def supported_def)
  have n: "Name (fail1_shape ! 0) = ''UnsupportedType''"
    by (simp add: fail1_shape_def exported_def)
  have "0 < length fail1_shape" by (simp add: fail1_shape_def)
  with unsupported_kind_fails [OF sh, of 0 golib default_delimiter] r u
  have "CompileWithDelimiter golib (pointer_to fail1_shape) default_delimiter =
       Returns (Inl (FailedToUseField (Name (fail1_shape ! 0)) ErrUnsupportedKind))"
    by simp
  with sh r u n show ?thesis by simp
qed

text \<open>
  Claim C5 as stated fails: a shape whose fields are nested structs, one with the
  dash and one with the empty fragment, compiles to a matcher.
\<close>

theorem skipped_unsupported_kind_compiles:
  "Compile golib (pointer_to skip_shape) =
     Returns (Inr \<lparr>regex = \<lparr>expr = ''(?mU)'', prog = Empty, numSubexp = 0\<rparr>,
                   indices = [], kinds = [], vtype = StructType skip_shape\<rparr>)"
  by (simp add: compile_defs skip_shape_def golib_simps tag_defs rx_defs)

text \<open>
  Claim C3, amended, at the sample shape.
\<close>

theorem compiled_in_mode_mU_witness:
  "\<exists>m. CompileWithDelimiter golib (pointer_to sample_shape) '' ?'' = Returns (Inr m)
       \<and> regexp_Compile golib
           (''(?mU)'' @ concat (map (\<lambda>ft. '' ?'' @ fragment golib ft)
                                  (recognized_fields golib sample_shape)))
         = Inr (regex m)"
proof -
  from sample_compiled obtain m where m:
    "CompileWithDelimiter golib (pointer_to sample_shape) '' ?'' = Returns (Inr m)"
    by blast
  from compiled_in_mode_mU [OF sample_is_struct m] m show ?thesis by blast
qed

lemma letter_compiled:
  "\<exists>m. Compile golib (pointer_to letter_shape) = Returns (Inr m)
       \<and> indices m = [0] \<and> kinds m = [KString]
       \<and> FindStringSubmatch golib (regex m) ''A'' = None
       \<and> FindStringSubmatch golib (regex m) ''a'' = Some [''a'', ''a'']"
  by (simp add: compile_defs letter_shape_def golib_simps tag_defs rx_defs)

text \<open>
  Claim C3 as stated fails: the matcher of a field with the fragment \<^verbatim>\<open>(a)\<close>
  finds no match in \<^verbatim>\<open>A\<close>, and finds one in \<^verbatim>\<open>a\<close>.
\<close>

theorem matching_is_case_sensitive:
  "compile_and_unmarshal golib (pointer_to letter_shape) ''A'' (PtrToStruct [var KString (StringOf [])])
     = (Returns (Some NoMatchesFound), PtrToStruct [var KString (StringOf [])])
   \<and> compile_and_unmarshal golib (pointer_to letter_shape) ''a'' (PtrToStruct [var KString (StringOf [])])
     = (Returns None, PtrToStruct [var KString (StringOf ''a'')])"
proof -
  from letter_compiled obtain m where m:
    "Compile golib (pointer_to letter_shape) = Returns (Inr m)"
    "indices m = [0]" "kinds m = [KString]"
    "FindStringSubmatch golib (regex m) ''A'' = None"
    "FindStringSubmatch golib (regex m) ''a'' = Some [''a'', ''a'']"
    by blast
  then show ?thesis
    by (simp add: compile_and_unmarshal_def unmarshal_defs var_def typeParser_def set_defs)
qed


text \<open>
  Claim C4, amended, at an int8 field with the text \<^verbatim>\<open>-128\<close> and a uint8 field
  with the text \<^verbatim>\<open>-1\<close>.
\<close>

theorem integers_parse_in_64_bits_witness:
  "CanSet (var KInt8 (IntOf 0) :: float Value)
   \<and> typeParser golib KInt8 ''-128'' (var KInt8 (IntOf 0)) =
       Returns (None, var KInt8 (IntOf (- 128)))
   \<and> (\<exists>e. typeParser golib KUint8 ''-1'' (var KUint8 (UintOf 0)) =
         Returns (Some (StrconvError e), var KUint8 (UintOf 0)))"
proof -
  have cs: "CanSet (var KInt8 (IntOf 0) :: float Value)" "CanSet (var KUint8 (UintOf 0) :: float Value)"
    by (simp_all add: var_def)
  have k: "kind (var KInt8 (IntOf 0) :: float Value) = KInt8"
    "kind (var KUint8 (UintOf 0) :: float Value) = KUint8"
    by (simp_all add: var_def)
  have t: "int64_text ''-128''" "int64_value ''-128'' = - 128"
    by (simp_all add: int64_text_def int64_value_def read_sign_def decimal_digits_def is_digit_def
        digits_value_def)
  from integers_parse_in_64_bits [OF cs(1) k(1), where lib = golib and input = "''-128''"] t
  obtain c where "typeParser golib KInt8 ''-128'' (var KInt8 (IntOf 0)) =
       Returns (None, (var KInt8 (IntOf 0))\<lparr>holds := IntOf c\<rparr>)" "c = - 128"
    by (auto simp: signed_kind_def width_def)
  then have a: "typeParser golib KInt8 ''-128'' (var KInt8 (IntOf 0)) =
       Returns (None, var KInt8 (IntOf (- 128)))" by (simp add: var_def)
  from integers_parse_in_64_bits [OF cs(2) k(2), where lib = golib and input = "''-1''"]
  have b: "\<exists>e. typeParser golib KUint8 ''-1'' (var KUint8 (UintOf 0)) =
         Returns (Some (StrconvError e), var KUint8 (UintOf 0))"
    by (simp add: unsigned_kind_def)
  from cs(1) a b show ?thesis by simp
qed

lemma narrow_compiled:
  "\<exists>m. Compile golib (pointer_to narrow_shape) = Returns (Inr m)
       \<and> indices m = [0, 1] \<and> kinds m = [KInt8, KUint8]
       \<and> FindStringSubmatch golib (regex m) ''n=300 u=256'' =
           Some [''n=300 u=256'', ''300'', ''256'']"
  by (simp add: compile_defs narrow_shape_def golib_simps tag_defs rx_defs)

text \<open>
  Claim C4 as stated fails: 300 is out of range for an int8 field and 256 for a uint8
  field, and Unmarshal returns no error; the fields hold 44 and 0.
\<close>

theorem out_of_width_is_no_failure:
  "compile_and_unmarshal golib (pointer_to narrow_shape) ''n=300 u=256''
     (PtrToStruct [var KInt8 (IntOf 1), var KUint8 (UintOf 1)])
   = (Returns None, PtrToStruct [var KInt8 (IntOf 44), var KUint8 (UintOf 0)])"
proof -
  from narrow_compiled obtain m where m:
    "Compile golib (pointer_to narrow_shape) = Returns (Inr m)"
    "indices m = [0, 1]" "kinds m = [KInt8, KUint8]"
    "FindStringSubmatch golib (regex m) ''n=300 u=256'' =
           Some [''n=300 u=256'', ''300'', ''256'']"
    by blast
  then show ?thesis
    by (simp add: compile_and_unmarshal_def unmarshal_defs var_def typeParser_def set_defs
        int_defs)
qed

end
